theory Spec2Isabelle
  imports Main
begin

section \<open>Names, runes and the Go library functions the package calls\<close>

text \<open>
  The package \<open>fs\<close> (file \<open>internal/fs/sqlfile.go\<close>) works on two kinds of strings.
  Statement texts and file paths of a \<open>SQLFile\<close> are only concatenated, compared and
  measured in bytes: they are modelled as \<open>string\<close> (a list of bytes).
  Object names are traversed rune by rune (\<open>strings.Map\<close>, \<open>strings.ToLower\<close>): they
  are modelled as the list of runes that a \<open>range\<close> loop over the Go string yields, a rune
  being its code point. The path of a directory goes to \<open>path/filepath\<close> and \<open>os.Stat\<close>
  as bytes and through \<open>strings.Map\<close> as runes: it is a \<open>string\<close>, decoded and encoded
  as UTF-8 where the code ranges over its runes.
\<close>

type_synonym rune = nat

definition str :: "string \<Rightarrow> rune list" where
  "str s = map of_char s"

text \<open>
  Go's \<open>unicode.IsSpace\<close>, as its documentation defines it: in Latin-1 the runes
  \<open>'\t', '\n', '\v', '\f', '\r', ' '\<close>, U+0085 and U+00A0; beyond Latin-1 the runes of
  Unicode's White_Space property.
\<close>

definition unicode_IsSpace :: "rune \<Rightarrow> bool" where
  "unicode_IsSpace r =
     (r = 0x09 \<or> r = 0x0A \<or> r = 0x0B \<or> r = 0x0C \<or> r = 0x0D \<or> r = 0x20 \<or>
      r = 0x85 \<or> r = 0xA0 \<or> r = 0x1680 \<or> (0x2000 \<le> r \<and> r \<le> 0x200A) \<or>
      r = 0x2028 \<or> r = 0x2029 \<or> r = 0x202F \<or> r = 0x205F \<or> r = 0x3000)"

text \<open>
  The case tables of Go's \<open>unicode\<close> package (\<open>IsLower\<close>, \<open>IsUpper\<close>, \<open>ToLower\<close>,
  \<open>ToUpper\<close>) are data of the standard library: the functions below take them as a
  parameter, so every theorem holds for whatever the tables contain.
\<close>

record unicode_tables =
  IsLower :: "rune \<Rightarrow> bool"
  IsUpper :: "rune \<Rightarrow> bool"
  ToLower :: "rune \<Rightarrow> rune"
  ToUpper :: "rune \<Rightarrow> rune"

text \<open>The tables restricted to ASCII letters, to evaluate examples.\<close>

definition ascii_tables :: unicode_tables where
  "ascii_tables =
     \<lparr> IsLower = (\<lambda>r. 0x61 \<le> r \<and> r \<le> 0x7A),
       IsUpper = (\<lambda>r. 0x41 \<le> r \<and> r \<le> 0x5A),
       ToLower = (\<lambda>r. if 0x41 \<le> r \<and> r \<le> 0x5A then r + 0x20 else r),
       ToUpper = (\<lambda>r. if 0x61 \<le> r \<and> r \<le> 0x7A then r - 0x20 else r) \<rparr>"

text \<open>
  \<open>strings.Map(mapping, s)\<close> calls \<open>mapping\<close> once on every rune of \<open>s\<close>, in order,
  and drops the runes for which it returns a negative value.
\<close>

fun strings_Map :: "(rune \<Rightarrow> int) \<Rightarrow> rune list \<Rightarrow> rune list" where
  "strings_Map mapping [] = []"
| "strings_Map mapping (c # s) =
     (let r = mapping c in
      if 0 \<le> r then nat r # strings_Map mapping s else strings_Map mapping s)"

text \<open>\<open>strings.ToLower\<close> maps \<open>unicode.ToLower\<close> over the runes.\<close>

definition strings_ToLower :: "unicode_tables \<Rightarrow> rune list \<Rightarrow> rune list" where
  "strings_ToLower tbl s = strings_Map (\<lambda>r. int (ToLower tbl r)) s"

section \<open>File names for objects\<close>

text \<open>
  The \<open>banned\<close> slice of \<open>removeSpecialChars\<close>, in the order of the source:
  \<open>.  \  /  "  '  `  :  *  ?  |  ~  #  &  -  <  >  {  }  [  ]  (  )\<close>.
\<close>

definition banned :: "rune list" where
  "banned =
     [0x2E,
      0x5C, 0x2F,
      0x22, 0x27, 0x60,
      0x3A, 0x2A, 0x3F, 0x7C, 0x7E, 0x23, 0x26, 0x2D,
      0x3C, 0x3E, 0x7B, 0x7D, 0x5B, 0x5D, 0x28, 0x29]"

fun banned_loop :: "rune \<Rightarrow> rune list \<Rightarrow> bool" where
  "banned_loop r [] = False"
| "banned_loop r (bad # rest) = (if r = bad then True else banned_loop r rest)"

definition removeSpecialChars :: "rune \<Rightarrow> int" where
  "removeSpecialChars r =
     (if unicode_IsSpace r then -1
      else if banned_loop r banned then -1
      else int r)"

definition NormalizeFileName :: "unicode_tables \<Rightarrow> rune list \<Rightarrow> bool \<Rightarrow> rune list" where
  "NormalizeFileName tbl name lowerCase =
     (if lowerCase then strings_ToLower tbl name else name)"

definition FileNameForObject :: "unicode_tables \<Rightarrow> rune list \<Rightarrow> bool \<Rightarrow> rune list" where
  "FileNameForObject tbl objectName lowerCase =
     (let objectName1 = strings_Map removeSpecialChars objectName;
          objectName2 = (if objectName1 = [] then str ''symbols'' else objectName1)
      in NormalizeFileName tbl objectName2 lowerCase @ str ''.sql'')"

section \<open>Probing the case sensitivity of a directory\<close>

text \<open>
  Go's \<open>unicode/utf8\<close>, as its documentation defines it. \<open>utf8.DecodeRuneInString\<close>
  returns the rune at the start of a string and its width in bytes: one byte below 0x80;
  two bytes led by 0xC2 to 0xDF; three bytes led by 0xE0 to 0xEF (the second from 0xA0
  after 0xE0, and up to 0x9F after 0xED: no overlong form, no surrogate); four bytes led
  by 0xF0 to 0xF4 (the second from 0x90 after 0xF0, and up to 0x8F after 0xF4); the
  other bytes of a sequence are from 0x80 to 0xBF. For anything else it returns
  \<open>(RuneError, 1)\<close>, \<open>RuneError\<close> being U+FFFD.
\<close>

definition RuneError :: rune where
  "RuneError = 0xFFFD"

definition in_range :: "char \<Rightarrow> nat \<Rightarrow> nat \<Rightarrow> bool" where
  "in_range c lo hi = (lo \<le> of_char c \<and> (of_char c :: nat) \<le> hi)"

definition DecodeRuneInString :: "string \<Rightarrow> rune \<times> nat" where
  "DecodeRuneInString s =
     (case s of
        [] \<Rightarrow> (RuneError, 0)
      | s0 # rest \<Rightarrow>
          if in_range s0 0x00 0x7F then (of_char s0, 1)
          else if in_range s0 0xC2 0xDF then
            (case rest of
               s1 # _ \<Rightarrow>
                 if in_range s1 0x80 0xBF
                 then (of_char s0 mod 0x20 * 0x40 + of_char s1 mod 0x40, 2)
                 else (RuneError, 1)
             | _ \<Rightarrow> (RuneError, 1))
          else if in_range s0 0xE0 0xEF then
            (case rest of
               s1 # s2 # _ \<Rightarrow>
                 if in_range s1 (if of_char s0 = (0xE0::nat) then 0xA0 else 0x80)
                                (if of_char s0 = (0xED::nat) then 0x9F else 0xBF) \<and>
                    in_range s2 0x80 0xBF
                 then ((of_char s0 mod 0x10 * 0x40 + of_char s1 mod 0x40) * 0x40 +
                       of_char s2 mod 0x40, 3)
                 else (RuneError, 1)
             | _ \<Rightarrow> (RuneError, 1))
          else if in_range s0 0xF0 0xF4 then
            (case rest of
               s1 # s2 # s3 # _ \<Rightarrow>
                 if in_range s1 (if of_char s0 = (0xF0::nat) then 0x90 else 0x80)
                                (if of_char s0 = (0xF4::nat) then 0x8F else 0xBF) \<and>
                    in_range s2 0x80 0xBF \<and> in_range s3 0x80 0xBF
                 then (((of_char s0 mod 0x08 * 0x40 + of_char s1 mod 0x40) * 0x40 +
                        of_char s2 mod 0x40) * 0x40 + of_char s3 mod 0x40, 4)
                 else (RuneError, 1)
             | _ \<Rightarrow> (RuneError, 1))
          else (RuneError, 1))"

text \<open>The runes that a \<open>range\<close> loop over a string yields.\<close>

fun range_runes :: "string \<Rightarrow> rune list" where
  "range_runes [] = []"
| "range_runes (s0 # rest) =
     fst (DecodeRuneInString (s0 # rest)) #
     range_runes (drop (snd (DecodeRuneInString (s0 # rest)) - 1) rest)"

text \<open>
  \<open>utf8.EncodeRune\<close> (and \<open>WriteRune\<close> of a \<open>strings.Builder\<close>): the UTF-8 of a rune,
  and the UTF-8 of \<open>RuneError\<close> for a surrogate or a rune beyond U+10FFFF.
\<close>

definition EncodeRune :: "rune \<Rightarrow> string" where
  "EncodeRune r =
     (if r \<le> 0x7F then [char_of r]
      else if r \<le> 0x7FF then [char_of (0xC0 + r div 0x40), char_of (0x80 + r mod 0x40)]
      else if 0x10FFFF < r \<or> (0xD800 \<le> r \<and> r \<le> 0xDFFF) then [CHR 0xEF, CHR 0xBF, CHR 0xBD]
      else if r \<le> 0xFFFF then
        [char_of (0xE0 + r div 0x1000), char_of (0x80 + r div 0x40 mod 0x40),
         char_of (0x80 + r mod 0x40)]
      else
        [char_of (0xF0 + r div 0x40000), char_of (0x80 + r div 0x1000 mod 0x40),
         char_of (0x80 + r div 0x40 mod 0x40), char_of (0x80 + r mod 0x40)])"

text \<open>
  \<open>utf8.ValidString\<close>: the string consists of valid encodings only, that is, no step of
  the decoding returns \<open>(RuneError, 1)\<close>.
\<close>

fun ValidString :: "string \<Rightarrow> bool" where
  "ValidString [] = True"
| "ValidString (s0 # rest) =
     (DecodeRuneInString (s0 # rest) \<noteq> (RuneError, 1) \<and>
      ValidString (drop (snd (DecodeRuneInString (s0 # rest)) - 1) rest))"

text \<open>
  \<open>genCaseTestFilename\<close> passes a closure to \<open>strings.Map\<close> that reads and clears the
  variable \<open>flip\<close>; the recursion below threads \<open>flip\<close> through the calls, one per rune.
  The closure never returns a negative rune, so no rune is dropped. \<open>strings.Map\<close> ranges
  over the runes of the string and writes the rune that the closure returns for each in
  UTF-8: a byte that is no valid UTF-8 is read as \<open>RuneError\<close> and written as the three
  bytes of U+FFFD.
\<close>

fun genCaseTestFilename_map :: "unicode_tables \<Rightarrow> bool \<Rightarrow> rune list \<Rightarrow> rune list" where
  "genCaseTestFilename_map tbl flip [] = []"
| "genCaseTestFilename_map tbl flip (r # s) =
     (if flip then
        (if IsLower tbl r then
           (let u = ToUpper tbl r in
            if ToLower tbl u = r then u # genCaseTestFilename_map tbl False s
            else r # genCaseTestFilename_map tbl True s)
         else if IsUpper tbl r then
           (let l = ToLower tbl r in
            if ToUpper tbl l = r then l # genCaseTestFilename_map tbl False s
            else r # genCaseTestFilename_map tbl True s)
         else r # genCaseTestFilename_map tbl True s)
      else r # genCaseTestFilename_map tbl False s)"

definition genCaseTestFilename :: "unicode_tables \<Rightarrow> string \<Rightarrow> string" where
  "genCaseTestFilename tbl s =
     concat (map EncodeRune (genCaseTestFilename_map tbl True (range_runes s)))"

text \<open>
  Go's \<open>path/filepath\<close> on a system whose separator is the slash, as its documentation
  defines the functions. \<open>Clean\<close> drops empty and \<open>.\<close> elements, cancels an inner \<open>..\<close>
  against the element before it, drops a \<open>..\<close> that begins a rooted path, and returns
  \<open>.\<close> for an empty result. \<open>Base\<close> strips trailing separators and returns the last
  element; \<open>Dir\<close> cleans all but the last element; \<open>Join\<close> joins the elements from the
  first non-empty one on and cleans the result.
\<close>

definition Separator :: char where
  "Separator = CHR ''/''"

fun path_elements :: "string \<Rightarrow> string \<Rightarrow> string list" where
  "path_elements cur [] = [cur]"
| "path_elements cur (c # s) =
     (if c = Separator then cur # path_elements [] s else path_elements (cur @ [c]) s)"

fun clean_elements :: "bool \<Rightarrow> string list \<Rightarrow> string list \<Rightarrow> string list" where
  "clean_elements rooted out [] = out"
| "clean_elements rooted out (e # es) =
     (if e = [] \<or> e = ''.'' then clean_elements rooted out es
      else if e = ''..'' then
        (if out \<noteq> [] \<and> last out \<noteq> ''..'' then clean_elements rooted (butlast out) es
         else if rooted then clean_elements rooted out es
         else clean_elements rooted (out @ [e]) es)
      else clean_elements rooted (out @ [e]) es)"

fun join_elements :: "string list \<Rightarrow> string" where
  "join_elements [] = []"
| "join_elements [e] = e"
| "join_elements (e # es) = e @ Separator # join_elements es"

definition filepath_Clean :: "string \<Rightarrow> string" where
  "filepath_Clean path =
     (if path = [] then ''.''
      else
        (let rooted = (hd path = Separator);
             out = join_elements (clean_elements rooted [] (path_elements [] path))
         in if rooted then Separator # out
            else if out = [] then ''.''
            else out))"

definition filepath_Base :: "string \<Rightarrow> string" where
  "filepath_Base path =
     (if path = [] then ''.''
      else
        (let stripped = rev (dropWhile (\<lambda>c. c = Separator) (rev path));
             element = rev (takeWhile (\<lambda>c. c \<noteq> Separator) (rev stripped))
         in if element = [] then [Separator] else element))"

definition filepath_Dir :: "string \<Rightarrow> string" where
  "filepath_Dir path = filepath_Clean (rev (dropWhile (\<lambda>c. c \<noteq> Separator) (rev path)))"

definition filepath_Join :: "string list \<Rightarrow> string" where
  "filepath_Join elem =
     (case dropWhile (\<lambda>e. e = []) elem of
        [] \<Rightarrow> []
      | es \<Rightarrow> filepath_Clean (join_elements es))"

text \<open>
  \<open>os.Stat\<close> returns an error or a \<open>FileInfo\<close>; \<open>os.IsNotExist\<close> tells the not-found
  error from the others; \<open>os.SameFile\<close> compares the device and inode of two results.
  What \<open>os.Stat\<close> answers for a path is the state of the file system: a parameter
  \<open>stat\<close> of the probe, the same for its two calls.
\<close>

datatype os_error = ErrNotExist | ErrPermission

definition os_IsNotExist :: "os_error \<Rightarrow> bool" where
  "os_IsNotExist err = (err = ErrNotExist)"

record FileInfo =
  dev :: nat
  ino :: nat

definition os_SameFile :: "FileInfo \<Rightarrow> FileInfo \<Rightarrow> bool" where
  "os_SameFile fi1 fi2 = (dev fi1 = dev fi2 \<and> ino fi1 = ino fi2)"

text \<open>
  The error of \<open>IsCaseSensitiveFilesystem\<close>: \<open>fmt.Errorf\<close> of the fixed message
  \<open>could not determine the case-sensitivity of the filesystem\<close> and the error of \<open>os.Stat\<close>.
\<close>

datatype probe_error = CouldNotDetermine os_error

definition IsCaseSensitiveFilesystem ::
  "unicode_tables \<Rightarrow> (string \<Rightarrow> os_error + FileInfo) \<Rightarrow> string \<Rightarrow> bool \<times> probe_error option" where
  "IsCaseSensitiveFilesystem tbl stat dir =
     (let alt = filepath_Join [filepath_Dir dir, genCaseTestFilename tbl (filepath_Base dir)] in
      case stat dir of
        Inl err \<Rightarrow> (False, Some (CouldNotDetermine err))
      | Inr dInfo \<Rightarrow>
          (case stat alt of
             Inl err \<Rightarrow>
               if os_IsNotExist err then (True, None)
               else (False, Some (CouldNotDetermine err))
           | Inr aInfo \<Rightarrow> (\<not> os_SameFile dInfo aInfo, None)))"

section \<open>Statements, pointers and SQL files\<close>

text \<open>
  Modelled from the spec: the type \<open>tengo.Statement\<close> is declared in package \<open>tengo\<close>,
  whose code is not among the sources. The record has the fields that the spec's data
  model lists and that \<open>sqlfile.go\<close> reads or writes; the type of a statement is one of
  the spec's three kinds, of which the package names \<open>StatementTypeNoop\<close> and
  \<open>StatementTypeCommand\<close>.
\<close>

datatype StatementType = StatementTypeDDL | StatementTypeNoop | StatementTypeCommand

record Statement =
  File :: string
  Text :: string
  DefaultDatabase :: string
  Type :: StatementType
  Compound :: bool
  Delimiter :: string

text \<open>
  Modelled from the spec: the methods \<open>NormalizeTrailer\<close>, \<open>SplitTextBody\<close> and \<open>Location\<close>
  of \<open>tengo.Statement\<close>. The spec says that \<open>NormalizeTrailer\<close> rewrites the statement's
  text, that \<open>SplitTextBody\<close> returns the body and the footer of the text, and that
  \<open>Location\<close> returns a readable position. They are parameters of the model:
  \<open>NormalizeTrailer\<close> gives the text the statement has after the call, and nothing is
  assumed about the strings the three compute.
\<close>

record tengo =
  NormalizeTrailer :: "Statement \<Rightarrow> string"
  SplitTextBody :: "Statement \<Rightarrow> string \<times> string"
  Location :: "Statement \<Rightarrow> string"

text \<open>
  A \<open>SQLFile\<close> holds pointers to statements, and the package finds a statement by the
  equality of pointers and changes statements through them. The memory maps every
  address to the statement stored there; the addresses below \<open>allocated\<close> are in use,
  and a new statement (\<open>&tengo.Statement{...}\<close>) takes the next one. Pointers are not nil.
\<close>

type_synonym ptr = nat

record memory =
  heap :: "ptr \<Rightarrow> Statement"
  allocated :: nat

record SQLFile =
  FilePath :: string
  Statements :: "ptr list"
  Dirty :: bool

definition store :: "memory \<Rightarrow> ptr \<Rightarrow> Statement \<Rightarrow> memory" where
  "store m p v = m\<lparr>heap := (heap m)(p := v)\<rparr>"

definition new_Statement :: "memory \<Rightarrow> Statement \<Rightarrow> ptr \<times> memory" where
  "new_Statement m v =
     (allocated m, m\<lparr>heap := (heap m)(allocated m := v), allocated := Suc (allocated m)\<rparr>)"

definition NormalizeTrailer_in_place :: "tengo \<Rightarrow> memory \<Rightarrow> ptr \<Rightarrow> memory" where
  "NormalizeTrailer_in_place tg m p =
     store m p ((heap m p)\<lparr>Text := NormalizeTrailer tg (heap m p)\<rparr>)"

definition makeDelimiterCommand :: "string \<Rightarrow> string \<Rightarrow> string \<Rightarrow> memory \<Rightarrow> ptr \<times> memory" where
  "makeDelimiterCommand newDelimiter defaultDatabase filePath m =
     new_Statement m
       \<lparr> File = filePath,
         Text = ''DELIMITER '' @ newDelimiter @ [CHR 0x0A],
         DefaultDatabase = defaultDatabase,
         Type = StatementTypeCommand,
         Compound = False,
         Delimiter = [CHR 0x00] \<rparr>"

section \<open>The file system under \<open>Write\<close>\<close>

text \<open>
  Go's \<open>os.WriteFile\<close> and \<open>os.Remove\<close> on a file system that maps a path to the bytes
  of the file there. \<open>refused\<close> holds the paths on which the system fails every change
  (a permission, a read-only volume). \<open>os.Remove\<close> of a path with no file fails with
  the not-found error; \<open>os.WriteFile\<close> creates or replaces the file.
\<close>

record filesystem =
  files :: "string \<Rightarrow> string option"
  refused :: "string \<Rightarrow> bool"

definition os_WriteFile :: "filesystem \<Rightarrow> string \<Rightarrow> string \<Rightarrow> nat \<Rightarrow> filesystem \<times> os_error option" where
  "os_WriteFile fs name data perm =
     (if refused fs name then (fs, Some ErrPermission)
      else (fs\<lparr>files := (files fs)(name := Some data)\<rparr>, None))"

definition os_Remove :: "filesystem \<Rightarrow> string \<Rightarrow> filesystem \<times> os_error option" where
  "os_Remove fs name =
     (if refused fs name then (fs, Some ErrPermission)
      else if files fs name = None then (fs, Some ErrNotExist)
      else (fs\<lparr>files := (files fs)(name := None)\<rparr>, None))"

section \<open>Writing and deleting a file\<close>

definition Delete :: "SQLFile \<Rightarrow> filesystem \<Rightarrow> filesystem \<times> os_error option" where
  "Delete sqlFile fs = os_Remove fs (FilePath sqlFile)"

text \<open>The loop of \<open>Write\<close> over the statements: the buffer \<open>b\<close> and the flag \<open>keepFile\<close>.\<close>

fun Write_loop :: "memory \<Rightarrow> ptr list \<Rightarrow> string \<times> bool \<Rightarrow> string \<times> bool" where
  "Write_loop m [] (b, keepFile) = (b, keepFile)"
| "Write_loop m (stmt # rest) (b, keepFile) =
     Write_loop m rest
       (b @ Text (heap m stmt),
        (if Type (heap m stmt) \<noteq> StatementTypeNoop \<and> Type (heap m stmt) \<noteq> StatementTypeCommand
         then True else keepFile))"

text \<open>
  \<open>Write\<close> returns the count \<open>n\<close> and the error (the permission bits \<open>0666\<close> are
  \<open>0x1B6\<close>); the model returns with them the file
  (whose \<open>Dirty\<close> flag the call may clear) and the file system after the call.
\<close>

definition Write ::
  "memory \<Rightarrow> SQLFile \<Rightarrow> filesystem \<Rightarrow> (int \<times> os_error option) \<times> SQLFile \<times> filesystem" where
  "Write m sqlFile fs =
     (let (b, keepFile) = Write_loop m (Statements sqlFile) ([], False);
          (n, fs1, err) =
            (if keepFile then
               (let (fs', e) = os_WriteFile fs (FilePath sqlFile) b 0x1B6 in (int (length b), fs', e))
             else
               (let (fs', e) = Delete sqlFile fs in (0, fs', e)));
          sqlFile1 = (if err = None then sqlFile\<lparr>Dirty := False\<rparr> else sqlFile)
      in ((n, err), sqlFile1, fs1))"

section \<open>Adding, editing and removing statements\<close>

text \<open>
  The first loop of \<open>AddStatement\<close>: while the last statement is a command, drop it.
\<close>

function prune_loop :: "memory \<Rightarrow> ptr list \<Rightarrow> ptr list" where
  "prune_loop m ss =
     (if length ss > 0 \<and> Type (heap m (ss ! (length ss - 1))) = StatementTypeCommand
      then prune_loop m (take (length ss - 1) ss)
      else ss)"
  by pat_completeness auto
termination
  by (relation "measure (\<lambda>(m, ss). length ss)") auto

definition AddStatement :: "tengo \<Rightarrow> memory \<times> SQLFile \<Rightarrow> ptr \<Rightarrow> memory \<times> SQLFile" where
  "AddStatement tg st stmt =
     (let (m, sqlFile) = st;
          ss0 = prune_loop m (Statements sqlFile);
          (currentDelimiter, defaultDatabase, m1) =
            (if length ss0 > 0 then
               (let lastStmt = ss0 ! (length ss0 - 1) in
                (Delimiter (heap m lastStmt), DefaultDatabase (heap m lastStmt),
                 NormalizeTrailer_in_place tg m lastStmt))
             else ('';'', [], m));
          (ss1, currentDelimiter1, m2) =
            (if Compound (heap m1 stmt) \<and> currentDelimiter = '';'' then
               (let (c, m') = makeDelimiterCommand ''//'' defaultDatabase (FilePath sqlFile) m1
                in (ss0 @ [c], ''//'', m'))
             else if \<not> Compound (heap m1 stmt) \<and> currentDelimiter \<noteq> '';'' then
               (let (c, m') = makeDelimiterCommand '';'' defaultDatabase (FilePath sqlFile) m1
                in (ss0 @ [c], '';'', m'))
             else (ss0, currentDelimiter, m1));
          m3 = store m2 stmt
                 ((heap m2 stmt)\<lparr>File := FilePath sqlFile,
                                  DefaultDatabase := defaultDatabase,
                                  Delimiter := currentDelimiter1\<rparr>);
          m4 = NormalizeTrailer_in_place tg m3 stmt;
          ss2 = ss1 @ [stmt];
          (ss3, m5) =
            (if currentDelimiter1 \<noteq> '';'' then
               (let (c, m') = makeDelimiterCommand '';'' defaultDatabase (FilePath sqlFile) m4
                in (ss2 @ [c], m'))
             else (ss2, m4))
      in (m5, sqlFile\<lparr>Statements := ss3, Dirty := True\<rparr>))"

text \<open>
  A call either returns the new state or panics; a panic carries its message and the
  state at that moment. \<open>statementIndex\<close> returns the first index that holds the
  pointer, and panics when none does.
\<close>

datatype outcome = Returns "memory \<times> SQLFile" | Panics string "memory \<times> SQLFile"

fun statementIndex_loop :: "ptr list \<Rightarrow> ptr \<Rightarrow> nat \<Rightarrow> nat option" where
  "statementIndex_loop [] stmt n = None"
| "statementIndex_loop (p # ps) stmt n =
     (if p = stmt then Some n else statementIndex_loop ps stmt (Suc n))"

definition statementIndex :: "tengo \<Rightarrow> memory \<Rightarrow> SQLFile \<Rightarrow> ptr \<Rightarrow> string + nat" where
  "statementIndex tg m sqlFile stmt =
     (case statementIndex_loop (Statements sqlFile) stmt 0 of
        Some n \<Rightarrow> Inr n
      | None \<Rightarrow>
          Inl (''Statement previously at '' @ Location tg (heap m stmt) @
               '' not actually found in file''))"

definition EditStatementText ::
  "tengo \<Rightarrow> memory \<times> SQLFile \<Rightarrow> ptr \<Rightarrow> string \<Rightarrow> bool \<Rightarrow> outcome" where
  "EditStatementText tg st stmt newText compound =
     (let (m, sqlFile0) = st;
          sqlFile = sqlFile0\<lparr>Dirty := True\<rparr>
      in case statementIndex tg m sqlFile stmt of
           Inl msg \<Rightarrow> Panics msg (m, sqlFile)
         | Inr i \<Rightarrow>
             if Delimiter (heap m stmt) \<noteq> '';'' \<or> \<not> compound then
               (let (body, oldFooter) = SplitTextBody tg (heap m stmt);
                    m1 = store m stmt ((heap m stmt)\<lparr>Text := newText @ oldFooter\<rparr>);
                    m2 = store m1 stmt ((heap m1 stmt)\<lparr>Compound := compound\<rparr>)
                in Returns (m2, sqlFile))
             else
               (let (c1, m1) = makeDelimiterCommand ''//'' (DefaultDatabase (heap m stmt))
                                 (FilePath sqlFile) m;
                    m2 = store m1 stmt ((heap m1 stmt)\<lparr>Delimiter := ''//''\<rparr>);
                    m3 = store m2 stmt ((heap m2 stmt)\<lparr>Text := newText @ ''//'' @ [CHR 0x0A]\<rparr>);
                    m4 = store m3 stmt ((heap m3 stmt)\<lparr>Compound := compound\<rparr>);
                    (c2, m5) = makeDelimiterCommand '';'' (DefaultDatabase (heap m4 stmt))
                                 (FilePath sqlFile) m4;
                    newStatements =
                      take i (Statements sqlFile) @ [c1, stmt, c2] @
                      drop (i + 1) (Statements sqlFile)
                in Returns (m5, sqlFile\<lparr>Statements := newStatements\<rparr>)))"

definition RemoveStatement :: "tengo \<Rightarrow> memory \<times> SQLFile \<Rightarrow> ptr \<Rightarrow> outcome" where
  "RemoveStatement tg st stmt =
     (let (m, sqlFile) = st
      in case statementIndex tg m sqlFile stmt of
           Inl msg \<Rightarrow> Panics msg (m, sqlFile)
         | Inr i \<Rightarrow>
             Returns (m, sqlFile\<lparr>Dirty := True,
                                 Statements := take i (Statements sqlFile) @
                                               drop (i + 1) (Statements sqlFile)\<rparr>))"

section \<open>Notions of the specification\<close>

text \<open>
  The specification calls a rune case-reversible when converting it to the opposite case
  and back yields the rune: a lower-case rune \<open>r\<close> with \<open>lower(upper(r)) = r\<close>, or an
  upper-case rune \<open>r\<close> with \<open>upper(lower(r)) = r\<close>.
\<close>

definition case_reversible :: "unicode_tables \<Rightarrow> rune \<Rightarrow> bool" where
  "case_reversible tbl r =
     ((IsLower tbl r \<and> ToLower tbl (ToUpper tbl r) = r) \<or>
      (IsUpper tbl r \<and> ToUpper tbl (ToLower tbl r) = r))"

text \<open>The statement that \<open>makeDelimiterCommand\<close> builds, as a value.\<close>

definition delimiter_command :: "string \<Rightarrow> string \<Rightarrow> string \<Rightarrow> Statement" where
  "delimiter_command newDelimiter defaultDatabase filePath =
     \<lparr> File = filePath,
       Text = ''DELIMITER '' @ newDelimiter @ [CHR 0x0A],
       DefaultDatabase = defaultDatabase,
       Type = StatementTypeCommand,
       Compound = False,
       Delimiter = [CHR 0x00] \<rparr>"

text \<open>
  Invariant 2 of the specification speaks of the terminator declared by the nearest
  preceding Command-type statement that sets the delimiter. A command sets the delimiter
  when its text is \<open>DELIMITER\<close>, a space, the terminator and a newline, as the commands
  of \<open>makeDelimiterCommand\<close> are; the delimiter in effect after the statements \<open>before\<close>
  is the one that the last such command among them declares, or \<open>;\<close> if there is none.
\<close>

definition declared_delimiter :: "Statement \<Rightarrow> string option" where
  "declared_delimiter s =
     (if Type s = StatementTypeCommand \<and> take 10 (Text s) = ''DELIMITER '' \<and>
         10 < length (Text s) \<and> last (Text s) = CHR 0x0A
      then Some (butlast (drop 10 (Text s)))
      else None)"

definition delimiter_in_effect :: "(ptr \<Rightarrow> Statement) \<Rightarrow> ptr list \<Rightarrow> string" where
  "delimiter_in_effect h before =
     (case List.map_filter (\<lambda>p. declared_delimiter (h p)) (rev before) of
        [] \<Rightarrow> '';''
      | nearest # earlier \<Rightarrow> nearest)"






text \<open>
  The values \<open>currentDelimiter\<close> and \<open>defaultDatabase\<close> that \<open>AddStatement\<close> reads off the
  last statement it keeps.
\<close>

definition end_delimiter :: "memory \<Rightarrow> ptr list \<Rightarrow> string" where
  "end_delimiter m kept = (if kept = [] then '';'' else Delimiter (heap m (last kept)))"


section \<open>Example states\<close>

text \<open>
  An instance of the three methods of a statement, to evaluate examples:
  \<open>NormalizeTrailer\<close> appends the delimiter and a newline unless the text ends with them,
  \<open>SplitTextBody\<close> cuts the text before them, and \<open>Location\<close> names the file.
\<close>

definition example_tengo :: tengo where
  "example_tengo =
     \<lparr> NormalizeTrailer =
         (\<lambda>s. let t = Delimiter s @ [CHR 0x0A] in
               if length t \<le> length (Text s) \<and> drop (length (Text s) - length t) (Text s) = t
               then Text s else Text s @ t),
       SplitTextBody =
         (\<lambda>s. let n = length (Text s) - (length (Delimiter s) + 1) in
               (take n (Text s), drop n (Text s))),
       Location = (\<lambda>s. File s) \<rparr>"

text \<open>
  A memory with three statements: at address 0 an \<open>INSERT\<close>, at address 1 the body of a
  trigger (a compound statement), at address 2 a comment.
\<close>

definition example_insert :: Statement where
  "example_insert =
     \<lparr> File = ''t.sql'', Text = ''INSERT INTO t VALUES (1);'' @ [CHR 0x0A], DefaultDatabase = [],
       Type = StatementTypeDDL, Compound = False, Delimiter = '';'' \<rparr>"

definition example_trigger :: Statement where
  "example_trigger =
     \<lparr> File = [], Text = ''CREATE TRIGGER g BEFORE INSERT ON t FOR EACH ROW BEGIN SET @a = 1; END'',
       DefaultDatabase = [], Type = StatementTypeDDL, Compound = True, Delimiter = [] \<rparr>"

definition example_comment :: Statement where
  "example_comment =
     \<lparr> File = ''t.sql'', Text = ''-- nothing here'' @ [CHR 0x0A], DefaultDatabase = [],
       Type = StatementTypeNoop, Compound = False, Delimiter = '';'' \<rparr>"

definition example_memory :: memory where
  "example_memory =
     \<lparr> heap = (\<lambda>p. if p = 0 then example_insert else if p = 1 then example_trigger
                    else example_comment),
       allocated = 3 \<rparr>"

text \<open>
  The memory after the trigger has been added to an empty file: the command
  \<open>DELIMITER //\<close> at address 3 and the command \<open>DELIMITER ;\<close> at address 4.
\<close>

definition example_bracketed :: memory where
  "example_bracketed =
     \<lparr> heap = (\<lambda>p. if p = 0 then example_insert
                    else if p = 1 then example_trigger
                      \<lparr>File := ''t.sql'', Delimiter := ''//'',
                       Text := Text example_trigger @ ''//'' @ [CHR 0x0A]\<rparr>
                    else if p = 3 then delimiter_command ''//'' [] ''t.sql''
                    else if p = 4 then delimiter_command '';'' [] ''t.sql''
                    else example_comment),
       allocated = 5 \<rparr>"

definition example_file :: "ptr list \<Rightarrow> SQLFile" where
  "example_file ss = \<lparr> FilePath = ''t.sql'', Statements = ss, Dirty = False \<rparr>"

text \<open>A file system that holds an older \<open>t.sql\<close> and refuses no change.\<close>

definition example_filesystem :: filesystem where
  "example_filesystem =
     \<lparr> files = (\<lambda>name. if name = ''t.sql'' then Some ''-- old'' else None),
       refused = (\<lambda>name. False) \<rparr>"

text \<open>
  What \<open>os.Stat\<close> answers in a directory with six entries: \<open>123\<close> and \<open>abc\<close>, stored
  under these names only; \<open>Mixed\<close>, which the system also finds as \<open>mixed\<close>; \<open>two\<close> and
  \<open>Two\<close>, two directories; \<open>locked\<close>, beside which \<open>Locked\<close> cannot be examined; and a
  directory whose name is the byte 0xFF followed by \<open>123\<close>.
\<close>

definition example_stat :: "string \<Rightarrow> os_error + FileInfo" where
  "example_stat path =
     (if path = ''123'' \<or> path = ''123/'' then Inr \<lparr>dev = 1, ino = 7\<rparr>
      else if path = ''abc'' then Inr \<lparr>dev = 1, ino = 8\<rparr>
      else if path = ''Mixed'' \<or> path = ''mixed'' then Inr \<lparr>dev = 1, ino = 9\<rparr>
      else if path = ''two'' then Inr \<lparr>dev = 1, ino = 10\<rparr>
      else if path = ''Two'' then Inr \<lparr>dev = 1, ino = 11\<rparr>
      else if path = ''locked'' then Inr \<lparr>dev = 1, ino = 12\<rparr>
      else if path = ''Locked'' then Inl ErrPermission
      else if path = CHR 0xFF # ''123'' then Inr \<lparr>dev = 1, ino = 13\<rparr>
      else Inl ErrNotExist)"

section \<open>Sanitising object names\<close>

lemma banned_loop_set: "banned_loop r bs = (r \<in> set bs)"
  by (induction bs) auto

lemma strings_Map_removeSpecialChars:
  "strings_Map removeSpecialChars s =
     filter (\<lambda>r. \<not> unicode_IsSpace r \<and> r \<notin> set banned) s"
  by (induction s) (simp_all add: removeSpecialChars_def banned_loop_set)

lemma strings_ToLower_map: "strings_ToLower tbl s = map (ToLower tbl) s"
  unfolding strings_ToLower_def by (induction s) simp_all

section \<open>Claims about file names\<close>

text \<open>
  Claim C10, as far as the code supports it: \<open>FileNameForObject\<close> keeps exactly the runes
  of the object name that are neither white space nor in the banned list, in their order;
  puts \<open>symbols\<close> in place of an empty result; maps \<open>ToLower\<close> over the name exactly when
  \<open>lowerCase\<close> is set; and appends \<open>.sql\<close>. In \<open>My Table!\<close> the space is dropped and the
  exclamation mark, which is not banned, is kept: the file name is \<open>MyTable!.sql\<close>.
\<close>

theorem FileNameForObject_sanitises:
  "FileNameForObject tbl objectName lowerCase =
     (let kept = filter (\<lambda>r. \<not> unicode_IsSpace r \<and> r \<notin> set banned) objectName;
          name = (if kept = [] then str ''symbols'' else kept)
      in (if lowerCase then map (ToLower tbl) name else name) @ str ''.sql'')
   \<and> FileNameForObject tbl (str ''My Table!'') False = str ''MyTable!.sql''"
proof
  show "FileNameForObject tbl objectName lowerCase =
     (let kept = filter (\<lambda>r. \<not> unicode_IsSpace r \<and> r \<notin> set banned) objectName;
          name = (if kept = [] then str ''symbols'' else kept)
      in (if lowerCase then map (ToLower tbl) name else name) @ str ''.sql'')"
    by (simp add: FileNameForObject_def NormalizeFileName_def Let_def
        strings_Map_removeSpecialChars strings_ToLower_map)
  show "FileNameForObject tbl (str ''My Table!'') False = str ''MyTable!.sql''"
    by (simp add: FileNameForObject_def NormalizeFileName_def str_def
        removeSpecialChars_def unicode_IsSpace_def banned_def)
qed

text \<open>
  Claim C10 as the specification words it gives \<open>MyTable.sql\<close> for \<open>My Table!\<close>; the code
  does not return that name.
\<close>

theorem FileNameForObject_example_counterexample:
  "FileNameForObject ascii_tables (str ''My Table!'') False \<noteq> str ''MyTable.sql''"
  by (simp add: FileNameForObject_def NormalizeFileName_def str_def
      removeSpecialChars_def unicode_IsSpace_def banned_def)

section \<open>Finding a statement by its pointer\<close>

lemma statementIndex_loop_None:
  "stmt \<notin> set ss \<Longrightarrow> statementIndex_loop ss stmt n = None"
  by (induction ss arbitrary: n) auto

lemma statementIndex_loop_Some:
  "stmt \<in> set ss \<Longrightarrow>
   statementIndex_loop ss stmt n = Some (n + length (takeWhile (\<lambda>p. p \<noteq> stmt) ss))"
  by (induction ss arbitrary: n) auto

lemma statementIndex_found:
  "stmt \<in> set (Statements sqlFile) \<Longrightarrow>
   statementIndex tg m sqlFile stmt =
     Inr (length (takeWhile (\<lambda>p. p \<noteq> stmt) (Statements sqlFile)))"
  by (simp add: statementIndex_def statementIndex_loop_Some)

lemma statementIndex_missing:
  "stmt \<notin> set (Statements sqlFile) \<Longrightarrow>
   statementIndex tg m sqlFile stmt =
     Inl (''Statement previously at '' @ Location tg (heap m stmt) @
          '' not actually found in file'')"
  by (simp add: statementIndex_def statementIndex_loop_None)

lemma take_first: "take (length (takeWhile P xs)) xs = takeWhile P xs"
  by (induction xs) auto

lemma drop_first: "drop (length (takeWhile P xs)) xs = dropWhile P xs"
  by (induction xs) auto

lemma drop_Suc_first: "drop (Suc (length (takeWhile P xs))) xs = tl (dropWhile P xs)"
  by (induction xs) (auto simp: drop_first)

lemmas memory_defs =
  store_def NormalizeTrailer_in_place_def makeDelimiterCommand_def new_Statement_def
  delimiter_command_def

lemmas example_defs =
  example_tengo_def example_insert_def example_trigger_def example_comment_def
  example_memory_def example_file_def

section \<open>Claims about panics and edits\<close>

text \<open>
  Claim C7: when the pointer \<open>stmt\<close> is not among the statements of the file, both
  \<open>EditStatementText\<close> and \<open>RemoveStatement\<close> panic, with a message that names the
  location of the statement. Neither returns, and neither returns an error value.
  (\<open>EditStatementText\<close> has marked the file dirty before it panics.)
\<close>

theorem missing_statement_panics:
  "stmt \<notin> set (Statements sqlFile) \<Longrightarrow>
     EditStatementText tg (m, sqlFile) stmt newText compound =
       Panics (''Statement previously at '' @ Location tg (heap m stmt) @
               '' not actually found in file'')
              (m, sqlFile\<lparr>Dirty := True\<rparr>)
     \<and> RemoveStatement tg (m, sqlFile) stmt =
       Panics (''Statement previously at '' @ Location tg (heap m stmt) @
               '' not actually found in file'')
              (m, sqlFile)"
  by (simp add: EditStatementText_def RemoveStatement_def statementIndex_missing)

theorem missing_statement_panics_witness:
  "1 \<notin> set (Statements (example_file [0]))
   \<and> EditStatementText example_tengo (example_memory, example_file [0]) 1 ''SELECT 1'' False =
       Panics ''Statement previously at  not actually found in file''
              (example_memory, (example_file [0])\<lparr>Dirty := True\<rparr>)
   \<and> RemoveStatement example_tengo (example_memory, example_file [0]) 1 =
       Panics ''Statement previously at  not actually found in file''
              (example_memory, example_file [0])"
proof -
  have h: "1 \<notin> set (Statements (example_file [0]))"
    by (simp add: example_file_def)
  show ?thesis
    using h missing_statement_panics [OF h, of example_tengo example_memory "''SELECT 1''" False]
    by (simp add: example_defs)
qed

text \<open>
  Claim C5: when \<open>stmt\<close> is among the statements of the file and its delimiter is not
  \<open>;\<close> or \<open>compound\<close> is false, \<open>EditStatementText\<close> returns; the text of \<open>stmt\<close> becomes
  \<open>newText\<close> followed by the footer that \<open>SplitTextBody\<close> gives for the statement as it
  was, its \<open>Compound\<close> becomes \<open>compound\<close>; no other statement in memory changes, and the
  file holds the same pointers in the same order (and is marked dirty).
\<close>

theorem EditStatementText_in_place:
  "stmt \<in> set (Statements sqlFile) \<Longrightarrow>
   Delimiter (heap m stmt) \<noteq> '';'' \<or> \<not> compound \<Longrightarrow>
   EditStatementText tg (m, sqlFile) stmt newText compound =
     Returns
       (m\<lparr>heap := (heap m)(stmt := (heap m stmt)
            \<lparr>Text := newText @ snd (SplitTextBody tg (heap m stmt)), Compound := compound\<rparr>)\<rparr>,
        sqlFile\<lparr>Dirty := True\<rparr>)"
  by (auto simp add: EditStatementText_def statementIndex_found store_def Let_def
      split: prod.splits)

theorem EditStatementText_in_place_witness:
  "0 \<in> set (Statements (example_file [2, 0]))
   \<and> EditStatementText example_tengo (example_memory, example_file [2, 0]) 0
        ''INSERT INTO t VALUES (2)'' False =
       Returns
         (example_memory\<lparr>heap := (heap example_memory)(0 := example_insert
             \<lparr>Text := ''INSERT INTO t VALUES (2);'' @ [CHR 0x0A]\<rparr>)\<rparr>,
          (example_file [2, 0])\<lparr>Dirty := True\<rparr>)"
proof -
  have h1: "0 \<in> set (Statements (example_file [2, 0]))"
    by (simp add: example_file_def)
  have h2: "Delimiter (heap example_memory 0) \<noteq> '';'' \<or> \<not> False"
    by simp
  show ?thesis
    using h1 EditStatementText_in_place [OF h1 h2, of example_tengo "''INSERT INTO t VALUES (2)''"]
    by (simp add: example_defs)
qed

text \<open>
  Claim C4: when \<open>stmt\<close> is among the statements of the file (and is an allocated
  statement) and its delimiter is \<open>;\<close>, \<open>EditStatementText(stmt, newText, true)\<close> returns
  with a sequence two elements longer: the pointers before the first occurrence of
  \<open>stmt\<close>, then a new \<open>DELIMITER //\<close> command, then \<open>stmt\<close>, then a new \<open>DELIMITER ;\<close>
  command, then the pointers after that occurrence. \<open>stmt\<close> then has the delimiter
  \<open>//\<close>, the text \<open>newText\<close> followed by \<open>//\<close> and a newline, and is compound; no other
  allocated statement changes.
\<close>

theorem EditStatementText_rebrackets:
  assumes "stmt \<in> set (Statements sqlFile)" and "Delimiter (heap m stmt) = '';''"
    and "stmt < allocated m"
  shows "\<exists>m'. EditStatementText tg (m, sqlFile) stmt newText True =
           Returns (m', sqlFile\<lparr>Dirty := True,
              Statements := takeWhile (\<lambda>p. p \<noteq> stmt) (Statements sqlFile) @
                            [allocated m, stmt, Suc (allocated m)] @
                            tl (dropWhile (\<lambda>p. p \<noteq> stmt) (Statements sqlFile))\<rparr>)
         \<and> length (takeWhile (\<lambda>p. p \<noteq> stmt) (Statements sqlFile) @
                    [allocated m, stmt, Suc (allocated m)] @
                    tl (dropWhile (\<lambda>p. p \<noteq> stmt) (Statements sqlFile)))
             = length (Statements sqlFile) + 2
         \<and> heap m' (allocated m) =
             delimiter_command ''//'' (DefaultDatabase (heap m stmt)) (FilePath sqlFile)
         \<and> heap m' stmt =
             (heap m stmt)\<lparr>Delimiter := ''//'', Text := newText @ ''//'' @ [CHR 0x0A],
                             Compound := True\<rparr>
         \<and> heap m' (Suc (allocated m)) =
             delimiter_command '';'' (DefaultDatabase (heap m stmt)) (FilePath sqlFile)
         \<and> (\<forall>p. p \<noteq> stmt \<and> p < allocated m \<longrightarrow> heap m' p = heap m p)"
proof -
  have len: "length (takeWhile (\<lambda>p. p \<noteq> stmt) (Statements sqlFile) @
                    [allocated m, stmt, Suc (allocated m)] @
                    tl (dropWhile (\<lambda>p. p \<noteq> stmt) (Statements sqlFile)))
             = length (Statements sqlFile) + 2"
  proof -
    have "dropWhile (\<lambda>p. p \<noteq> stmt) (Statements sqlFile) \<noteq> []"
      using assms(1) by (simp add: dropWhile_eq_Nil_conv)
    then have "length (tl (dropWhile (\<lambda>p. p \<noteq> stmt) (Statements sqlFile))) + 1
               = length (dropWhile (\<lambda>p. p \<noteq> stmt) (Statements sqlFile))"
      by (cases "dropWhile (\<lambda>p. p \<noteq> stmt) (Statements sqlFile)") simp_all
    moreover have "length (takeWhile (\<lambda>p. p \<noteq> stmt) (Statements sqlFile)) +
                   length (dropWhile (\<lambda>p. p \<noteq> stmt) (Statements sqlFile))
                   = length (Statements sqlFile)"
      by (metis length_append takeWhile_dropWhile_id)
    ultimately show ?thesis by simp
  qed
  show ?thesis
    using assms len
    by (simp add: EditStatementText_def statementIndex_found Let_def memory_defs
        take_first drop_Suc_first)
qed

theorem EditStatementText_rebrackets_witness:
  "0 \<in> set (Statements (example_file [2, 0, 2]))
   \<and> Delimiter (heap example_memory 0) = '';''
   \<and> (0::nat) < allocated example_memory
   \<and> (\<exists>m'. EditStatementText example_tengo (example_memory, example_file [2, 0, 2]) 0
              ''CREATE PROCEDURE p() BEGIN SELECT 1; END'' True =
            Returns (m', (example_file [2, 3, 0, 4, 2])\<lparr>Dirty := True\<rparr>)
          \<and> heap m' 3 = delimiter_command ''//'' [] ''t.sql''
          \<and> Text (heap m' 0) = ''CREATE PROCEDURE p() BEGIN SELECT 1; END//'' @ [CHR 0x0A]
          \<and> Delimiter (heap m' 0) = ''//''
          \<and> heap m' 4 = delimiter_command '';'' [] ''t.sql''
          \<and> heap m' 2 = example_comment)"
proof -
  have h1: "0 \<in> set (Statements (example_file [2, 0, 2]))"
    by (simp add: example_file_def)
  have h2: "Delimiter (heap example_memory 0) = '';''"
    by (simp add: example_defs)
  have h3: "(0::nat) < allocated example_memory"
    by (simp add: example_defs)
  show ?thesis
    using h1 h2 h3
      EditStatementText_rebrackets [OF h1 h2 h3, of example_tengo
        "''CREATE PROCEDURE p() BEGIN SELECT 1; END''"]
    by (auto simp add: example_defs)
qed

section \<open>The loop that prunes trailing commands\<close>

text \<open>The equation of the loop is unfolded by hand, one round at a time.\<close>

declare prune_loop.simps [simp del]

lemma prune_loop_Nil: "prune_loop m [] = []"
  by (subst prune_loop.simps) simp

lemma prune_loop_snoc:
  "prune_loop m (xs @ [x]) =
     (if Type (heap m x) = StatementTypeCommand then prune_loop m xs else xs @ [x])"
  by (subst prune_loop.simps) simp

lemma prune_loop_prefix:
  "\<exists>dropped. ss = prune_loop m ss @ dropped \<and>
      (\<forall>p\<in>set dropped. Type (heap m p) = StatementTypeCommand)"
proof (induction ss rule: rev_induct)
  case Nil
  then show ?case by (simp add: prune_loop_Nil)
next
  case (snoc x xs)
  show ?case
  proof (cases "Type (heap m x) = StatementTypeCommand")
    case True
    from snoc obtain dropped where d: "xs = prune_loop m xs @ dropped"
      "\<forall>p\<in>set dropped. Type (heap m p) = StatementTypeCommand" by blast
    have "xs @ [x] = prune_loop m (xs @ [x]) @ (dropped @ [x])"
      using d(1) True by (simp add: prune_loop_snoc)
    moreover have "\<forall>p\<in>set (dropped @ [x]). Type (heap m p) = StatementTypeCommand"
      using d(2) True by simp
    ultimately show ?thesis by blast
  next
    case False
    then show ?thesis by (simp add: prune_loop_snoc)
  qed
qed

lemma prune_loop_last:
  "prune_loop m ss \<noteq> [] \<Longrightarrow>
   Type (heap m (last (prune_loop m ss))) \<noteq> StatementTypeCommand"
  by (induction ss rule: rev_induct) (auto simp: prune_loop_Nil prune_loop_snoc)

lemma prune_loop_rev:
  "prune_loop m ss = rev (dropWhile (\<lambda>p. Type (heap m p) = StatementTypeCommand) (rev ss))"
  by (induction ss rule: rev_induct) (simp_all add: prune_loop_Nil prune_loop_snoc)

lemma prune_loop_set: "set (prune_loop m ss) \<subseteq> set ss"
  by (induction ss rule: rev_induct) (auto simp: prune_loop_Nil prune_loop_snoc)

lemma nth_last: "xs \<noteq> [] \<Longrightarrow> xs ! (length xs - Suc 0) = last xs"
  by (simp add: last_conv_nth)

section \<open>What \<open>AddStatement\<close> leaves in the file\<close>

lemma AddStatement_Statements:
  "Statements (snd (AddStatement tg (m, sqlFile) stmt)) =
     (let kept = prune_loop m (Statements sqlFile);
          cur = (if kept = [] then '';'' else Delimiter (heap m (last kept)));
          a = allocated m
      in kept @ (if Compound (heap m stmt)
                 then (if cur = '';'' then [a, stmt, Suc a] else [stmt, a])
                 else (if cur = '';'' then [stmt] else [a, stmt])))"
  by (simp add: AddStatement_def Let_def memory_defs nth_last)

lemma AddStatement_Type:
  "p < allocated m \<Longrightarrow>
   Type (heap (fst (AddStatement tg (m, sqlFile) stmt)) p) = Type (heap m p)"
  by (simp add: AddStatement_def Let_def memory_defs)

section \<open>Claims about \<open>AddStatement\<close>\<close>

text \<open>
  Claim C2: on a file with no statements, \<open>AddStatement\<close> of a compound statement (an
  allocated one) leaves exactly three statements, in this order: a new \<open>DELIMITER //\<close>
  command, the added statement with the delimiter \<open>//\<close> (and the file's path, an empty
  default database and a normalised text), and a new \<open>DELIMITER ;\<close> command. The file
  ends with the command that restores the default delimiter.
\<close>

theorem AddStatement_compound_on_empty:
  assumes "Statements sqlFile = []" and "Compound (heap m stmt)" and "stmt < allocated m"
  shows "\<exists>m'. AddStatement tg (m, sqlFile) stmt =
           (m', sqlFile\<lparr>Statements := [allocated m, stmt, Suc (allocated m)], Dirty := True\<rparr>)
         \<and> heap m' (allocated m) = delimiter_command ''//'' [] (FilePath sqlFile)
         \<and> heap m' stmt =
              (heap m stmt)\<lparr>File := FilePath sqlFile, DefaultDatabase := [],
                 Delimiter := ''//'',
                 Text := NormalizeTrailer tg ((heap m stmt)\<lparr>File := FilePath sqlFile,
                           DefaultDatabase := [], Delimiter := ''//''\<rparr>)\<rparr>
         \<and> heap m' (Suc (allocated m)) = delimiter_command '';'' [] (FilePath sqlFile)"
  using assms by (simp add: AddStatement_def Let_def memory_defs prune_loop_Nil)

theorem AddStatement_compound_on_empty_witness:
  "Statements (example_file []) = []
   \<and> Compound (heap example_memory 1)
   \<and> (1::nat) < allocated example_memory
   \<and> (\<exists>m'. AddStatement example_tengo (example_memory, example_file []) 1 =
             (m', (example_file [3, 1, 4])\<lparr>Dirty := True\<rparr>)
          \<and> Text (heap m' 3) = ''DELIMITER //'' @ [CHR 0x0A]
          \<and> Type (heap m' 3) = StatementTypeCommand
          \<and> Delimiter (heap m' 1) = ''//''
          \<and> Text (heap m' 1) =
               ''CREATE TRIGGER g BEFORE INSERT ON t FOR EACH ROW BEGIN SET @a = 1; END//'' @
               [CHR 0x0A]
          \<and> Text (heap m' 4) = ''DELIMITER ;'' @ [CHR 0x0A]
          \<and> Type (heap m' 4) = StatementTypeCommand)"
proof -
  have h1: "Statements (example_file []) = []"
    by (simp add: example_file_def)
  have h2: "Compound (heap example_memory 1)"
    by (simp add: example_defs)
  have h3: "(1::nat) < allocated example_memory"
    by (simp add: example_defs)
  show ?thesis
    using h1 h2 h3 AddStatement_compound_on_empty [OF h1 h2 h3, of example_tengo]
    by (auto simp add: example_defs delimiter_command_def)
qed

text \<open>
  Claim C6: \<open>AddStatement\<close> first drops the commands at the end of the sequence. The
  statements it keeps (\<open>kept\<close>) are a prefix of the old sequence and everything after
  the prefix is a command. The new sequence is exactly \<open>kept\<close> followed by what the call
  inserts: the statement \<open>stmt\<close>, with a new command before it, after it or both,
  according to \<open>stmt.Compound\<close> and the delimiter at the end of \<open>kept\<close>; no dropped command
  comes back, the new commands being no pointers of the old sequence. The statement
  before the insertion point, the last of \<open>kept\<close>, is not a command, neither before the
  call nor after it. (The pointers of the file are allocated statements.)
\<close>

theorem AddStatement_prunes_trailing_commands:
  assumes "kept = prune_loop m (Statements sqlFile)"
    and "\<forall>p\<in>set (Statements sqlFile). p < allocated m"
  shows "(\<exists>dropped. Statements sqlFile = kept @ dropped \<and>
            (\<forall>p\<in>set dropped. Type (heap m p) = StatementTypeCommand))
       \<and> Statements (snd (AddStatement tg (m, sqlFile) stmt)) =
            kept @ (if Compound (heap m stmt)
                    then (if end_delimiter m kept = '';''
                          then [allocated m, stmt, Suc (allocated m)] else [stmt, allocated m])
                    else (if end_delimiter m kept = '';''
                          then [stmt] else [allocated m, stmt]))
       \<and> allocated m \<notin> set (Statements sqlFile)
       \<and> Suc (allocated m) \<notin> set (Statements sqlFile)
       \<and> (kept \<noteq> [] \<longrightarrow>
            Type (heap m (last kept)) \<noteq> StatementTypeCommand \<and>
            Type (heap (fst (AddStatement tg (m, sqlFile) stmt)) (last kept))
              \<noteq> StatementTypeCommand)"
proof (intro conjI impI)
  show "\<exists>dropped. Statements sqlFile = kept @ dropped \<and>
            (\<forall>p\<in>set dropped. Type (heap m p) = StatementTypeCommand)"
    unfolding assms(1) by (rule prune_loop_prefix)
  show "Statements (snd (AddStatement tg (m, sqlFile) stmt)) =
            kept @ (if Compound (heap m stmt)
                    then (if end_delimiter m kept = '';''
                          then [allocated m, stmt, Suc (allocated m)] else [stmt, allocated m])
                    else (if end_delimiter m kept = '';''
                          then [stmt] else [allocated m, stmt]))"
    unfolding assms(1) AddStatement_Statements by (simp add: Let_def end_delimiter_def)
  show "allocated m \<notin> set (Statements sqlFile)"
    using assms(2) by auto
  show "Suc (allocated m) \<notin> set (Statements sqlFile)"
    using assms(2) by auto
next
  assume ne: "kept \<noteq> []"
  then show pre: "Type (heap m (last kept)) \<noteq> StatementTypeCommand"
    unfolding assms(1) by (rule prune_loop_last)
  have "last kept \<in> set (Statements sqlFile)"
    using ne prune_loop_set [of m "Statements sqlFile"] last_in_set [of kept]
    unfolding assms(1) by blast
  then have "last kept < allocated m"
    using assms(2) by blast
  then show "Type (heap (fst (AddStatement tg (m, sqlFile) stmt)) (last kept))
              \<noteq> StatementTypeCommand"
    using pre by (simp add: AddStatement_Type)
qed

theorem AddStatement_prunes_trailing_commands_witness:
  "prune_loop example_bracketed (Statements (example_file [3, 1, 4])) = [3, 1]
   \<and> Statements (example_file [3, 1, 4]) = [3, 1] @ [4]
   \<and> Type (heap example_bracketed 4) = StatementTypeCommand
   \<and> end_delimiter example_bracketed [3, 1] = ''//''
   \<and> Statements (snd (AddStatement example_tengo
         (example_bracketed, example_file [3, 1, 4]) 0)) = [3, 1] @ [5, 0]
   \<and> Type (heap example_bracketed 1) \<noteq> StatementTypeCommand
   \<and> Type (heap (fst (AddStatement example_tengo
         (example_bracketed, example_file [3, 1, 4]) 0)) (last [3, 1])) \<noteq> StatementTypeCommand"
proof -
  have k: "prune_loop example_bracketed (Statements (example_file [3, 1, 4])) = [3, 1]"
    by (simp add: prune_loop_rev example_defs example_bracketed_def delimiter_command_def)
  have h1: "[3, 1] = prune_loop example_bracketed (Statements (example_file [3, 1, 4]))"
    using k by simp
  have h2: "\<forall>p\<in>set (Statements (example_file [3, 1, 4])). p < allocated example_bracketed"
    by (simp add: example_defs example_bracketed_def)
  have e: "end_delimiter example_bracketed [3, 1] = ''//''"
    by (simp add: end_delimiter_def example_defs example_bracketed_def)
  have c: "\<not> Compound (heap example_bracketed 0)" "allocated example_bracketed = 5"
    by (simp_all add: example_defs example_bracketed_def)
  from AddStatement_prunes_trailing_commands [OF h1 h2, of example_tengo 0]
  have s: "Statements (snd (AddStatement example_tengo
         (example_bracketed, example_file [3, 1, 4]) 0)) = [3, 1] @ [5, 0]"
    and t: "Type (heap example_bracketed (last [3, 1])) \<noteq> StatementTypeCommand"
      "Type (heap (fst (AddStatement example_tengo
         (example_bracketed, example_file [3, 1, 4]) 0)) (last [3, 1])) \<noteq> StatementTypeCommand"
    unfolding e using c by simp_all
  have f: "Statements (example_file [3, 1, 4]) = [3, 1] @ [4]"
    "Type (heap example_bracketed 4) = StatementTypeCommand"
    by (simp_all add: example_defs example_bracketed_def delimiter_command_def)
  from k f e s t show ?thesis by simp
qed

section \<open>The loop of \<open>Write\<close>\<close>

lemma Write_loop_eq:
  "Write_loop m ss (b, keepFile) =
     (b @ concat (map (\<lambda>stmt. Text (heap m stmt)) ss),
      keepFile \<or> \<not> (\<forall>stmt\<in>set ss. Type (heap m stmt) = StatementTypeNoop \<or>
                                  Type (heap m stmt) = StatementTypeCommand))"
  by (induction ss arbitrary: b keepFile) auto

lemma Write_inert:
  assumes "\<forall>stmt\<in>set (Statements sqlFile).
              Type (heap m stmt) = StatementTypeNoop \<or> Type (heap m stmt) = StatementTypeCommand"
  shows "Write m sqlFile fs =
           ((0, snd (os_Remove fs (FilePath sqlFile))),
            (if snd (os_Remove fs (FilePath sqlFile)) = None then sqlFile\<lparr>Dirty := False\<rparr>
             else sqlFile),
            fst (os_Remove fs (FilePath sqlFile)))"
  using assms by (simp add: Write_def Write_loop_eq Delete_def Let_def split_beta)

lemma Write_content:
  assumes "\<not> (\<forall>stmt\<in>set (Statements sqlFile).
              Type (heap m stmt) = StatementTypeNoop \<or> Type (heap m stmt) = StatementTypeCommand)"
    and "buf = concat (map (\<lambda>stmt. Text (heap m stmt)) (Statements sqlFile))"
  shows "Write m sqlFile fs =
           ((int (length buf), snd (os_WriteFile fs (FilePath sqlFile) buf 0x1B6)),
            (if snd (os_WriteFile fs (FilePath sqlFile) buf 0x1B6) = None
             then sqlFile\<lparr>Dirty := False\<rparr> else sqlFile),
            fst (os_WriteFile fs (FilePath sqlFile) buf 0x1B6))"
  using assms by (simp add: Write_def Write_loop_eq Let_def split_beta)

lemma os_Remove_cases:
  "os_Remove fs name = (fs', err) \<Longrightarrow>
     (err = None \<longrightarrow> files fs' name = None) \<and> (err \<noteq> None \<longrightarrow> fs' = fs)"
  by (auto simp add: os_Remove_def split: if_splits)

lemma os_WriteFile_cases:
  "os_WriteFile fs name data perm = (fs', err) \<Longrightarrow>
     (err = None \<longrightarrow> files fs' name = Some data) \<and> (err \<noteq> None \<longrightarrow> fs' = fs)"
  by (auto simp add: os_WriteFile_def split: if_splits)

section \<open>Claims about \<open>Write\<close>\<close>

text \<open>
  Claim C1: \<open>Write\<close> calls \<open>os.Remove\<close> on the path of the file and returns the count 0
  exactly when every statement is a no-op or a command; otherwise it calls
  \<open>os.WriteFile\<close> on the path with the concatenation of the texts of the statements, in
  their order, and returns the length of that concatenation. When the call of the
  operating system succeeds, the path then holds no file in the first case and exactly
  the concatenation in the second, and the file is no longer dirty; when it fails, the
  error is returned and the file system is as it was.
\<close>

theorem Write_deletes_or_writes:
  assumes w: "Write m sqlFile fs = ((n, err), sqlFile', fs')"
    and i: "inert = (\<forall>stmt\<in>set (Statements sqlFile).
                    Type (heap m stmt) = StatementTypeNoop \<or>
                    Type (heap m stmt) = StatementTypeCommand)"
    and b: "buf = concat (map (\<lambda>stmt. Text (heap m stmt)) (Statements sqlFile))"
  shows "(inert \<longrightarrow> n = 0 \<and> (fs', err) = os_Remove fs (FilePath sqlFile))
       \<and> (\<not> inert \<longrightarrow> n = int (length buf) \<and>
             (fs', err) = os_WriteFile fs (FilePath sqlFile) buf 0x1B6)
       \<and> (err = None \<longrightarrow>
             files fs' (FilePath sqlFile) = (if inert then None else Some buf) \<and>
             ((files fs' (FilePath sqlFile) = None \<and> n = 0) = inert) \<and>
             sqlFile' = sqlFile\<lparr>Dirty := False\<rparr>)
       \<and> (err \<noteq> None \<longrightarrow> fs' = fs \<and> sqlFile' = sqlFile)"
proof (cases inert)
  case True
  then have "\<forall>stmt\<in>set (Statements sqlFile).
              Type (heap m stmt) = StatementTypeNoop \<or> Type (heap m stmt) = StatementTypeCommand"
    using i by simp
  from Write_inert [OF this, of fs] w
  have n: "n = 0" and r: "os_Remove fs (FilePath sqlFile) = (fs', err)"
    and f: "sqlFile' = (if err = None then sqlFile\<lparr>Dirty := False\<rparr> else sqlFile)"
    by (simp_all add: prod_eq_iff)
  from os_Remove_cases [OF r] n r f True show ?thesis by simp
next
  case False
  then have "\<not> (\<forall>stmt\<in>set (Statements sqlFile).
              Type (heap m stmt) = StatementTypeNoop \<or> Type (heap m stmt) = StatementTypeCommand)"
    using i by simp
  from Write_content [OF this b, of fs] w
  have n: "n = int (length buf)"
    and r: "os_WriteFile fs (FilePath sqlFile) buf 0x1B6 = (fs', err)"
    and f: "sqlFile' = (if err = None then sqlFile\<lparr>Dirty := False\<rparr> else sqlFile)"
    by (simp_all add: prod_eq_iff)
  from os_WriteFile_cases [OF r] n r f False show ?thesis by simp
qed

theorem Write_deletes_or_writes_witness:
  "Write example_memory (example_file [2, 0]) example_filesystem =
     ((42, None), (example_file [2, 0])\<lparr>Dirty := False\<rparr>,
      example_filesystem\<lparr>files := (files example_filesystem)
        (''t.sql'' := Some (''-- nothing here'' @ [CHR 0x0A] @ ''INSERT INTO t VALUES (1);'' @ [CHR 0x0A]))\<rparr>)
   \<and> (example_filesystem\<lparr>files := (files example_filesystem)
        (''t.sql'' := Some (''-- nothing here'' @ [CHR 0x0A] @ ''INSERT INTO t VALUES (1);'' @ [CHR 0x0A]))\<rparr>, None)
       = os_WriteFile example_filesystem ''t.sql''
           (''-- nothing here'' @ [CHR 0x0A] @ ''INSERT INTO t VALUES (1);'' @ [CHR 0x0A]) 0x1B6
   \<and> Write example_memory (example_file [2]) example_filesystem =
     ((0, None), (example_file [2])\<lparr>Dirty := False\<rparr>,
      example_filesystem\<lparr>files := (files example_filesystem)(''t.sql'' := None)\<rparr>)
   \<and> (example_filesystem\<lparr>files := (files example_filesystem)(''t.sql'' := None)\<rparr>, None)
       = os_Remove example_filesystem ''t.sql''"
proof -
  have w1: "Write example_memory (example_file [2, 0]) example_filesystem =
     ((42, None), (example_file [2, 0])\<lparr>Dirty := False\<rparr>,
      example_filesystem\<lparr>files := (files example_filesystem)
        (''t.sql'' := Some (''-- nothing here'' @ [CHR 0x0A] @ ''INSERT INTO t VALUES (1);'' @ [CHR 0x0A]))\<rparr>)"
    by (simp add: Write_def Delete_def os_Remove_def os_WriteFile_def example_defs example_filesystem_def)
  have w2: "Write example_memory (example_file [2]) example_filesystem =
     ((0, None), (example_file [2])\<lparr>Dirty := False\<rparr>,
      example_filesystem\<lparr>files := (files example_filesystem)(''t.sql'' := None)\<rparr>)"
    by (simp add: Write_def Delete_def os_Remove_def os_WriteFile_def example_defs example_filesystem_def)
  have i1: "\<not> (\<forall>stmt\<in>set (Statements (example_file [2, 0])).
               Type (heap example_memory stmt) = StatementTypeNoop \<or>
               Type (heap example_memory stmt) = StatementTypeCommand)"
    by (simp add: example_defs example_filesystem_def)
  have i2: "\<forall>stmt\<in>set (Statements (example_file [2])).
               Type (heap example_memory stmt) = StatementTypeNoop \<or>
               Type (heap example_memory stmt) = StatementTypeCommand"
    by (simp add: example_defs example_filesystem_def)
  have b1: "concat (map (\<lambda>stmt. Text (heap example_memory stmt)) (Statements (example_file [2, 0])))
            = ''-- nothing here'' @ [CHR 0x0A] @ ''INSERT INTO t VALUES (1);'' @ [CHR 0x0A]"
    by (simp add: example_defs example_filesystem_def)
  have f: "FilePath (example_file [2, 0]) = ''t.sql''" "FilePath (example_file [2]) = ''t.sql''"
    by (simp_all add: example_file_def)
  from Write_deletes_or_writes [OF w1 refl refl] i1
  have c1: "(example_filesystem\<lparr>files := (files example_filesystem)
        (''t.sql'' := Some (''-- nothing here'' @ [CHR 0x0A] @ ''INSERT INTO t VALUES (1);'' @ [CHR 0x0A]))\<rparr>, None)
       = os_WriteFile example_filesystem ''t.sql''
           (''-- nothing here'' @ [CHR 0x0A] @ ''INSERT INTO t VALUES (1);'' @ [CHR 0x0A]) 0x1B6"
    unfolding b1 f by blast
  from Write_deletes_or_writes [OF w2 refl refl] i2
  have c2: "(example_filesystem\<lparr>files := (files example_filesystem)(''t.sql'' := None)\<rparr>, None)
       = os_Remove example_filesystem ''t.sql''"
    unfolding f by blast
  from w1 c1 w2 c2 show ?thesis by blast
qed

section \<open>Decoding and encoding UTF-8\<close>

lemma char_of_eq_iff: "(char_of (n::nat) = c) = (n mod 256 = of_char c)"
  by (metis char_of_char of_char_of)

lemma mod_shift: "k * n \<le> b \<Longrightarrow> b < k * n + n \<Longrightarrow> b mod n = b - k * (n::nat)"
proof -
  assume a: "k * n \<le> b" "b < k * n + n"
  then have "b = (b - k * n) + k * n" by simp
  then have "b mod n = (b - k * n) mod n" by (metis mod_mult_self1 mult.commute)
  also have "\<dots> = b - k * n" using a by simp
  finally show ?thesis .
qed

lemma div_shift: "k * n \<le> b \<Longrightarrow> b < k * n + n \<Longrightarrow> b div n = (k::nat)"
proof -
  assume a: "k * n \<le> b" "b < k * n + n"
  then have n: "0 < n" by (cases n) auto
  have "b = (b - k * n) + k * n" using a by simp
  then have "b div n = (b - k * n) div n + k" using n by (metis div_mult_self1 add.commute mult.commute less_not_refl)
  also have "(b - k * n) div n = 0" using a by simp
  finally show ?thesis by simp
qed

lemma cont_mod: "(0x80::nat) \<le> b \<Longrightarrow> b \<le> 0xBF \<Longrightarrow> b mod 0x40 = b - 0x80"
  using mod_shift [of 2 "0x40" b] by simp

lemma lead2_mod: "(0xC2::nat) \<le> b \<Longrightarrow> b \<le> 0xDF \<Longrightarrow> b mod 0x20 = b - 0xC0"
  using mod_shift [of 6 "0x20" b] by simp

lemma lead3_mod: "(0xE0::nat) \<le> b \<Longrightarrow> b \<le> 0xEF \<Longrightarrow> b mod 0x10 = b - 0xE0"
  using mod_shift [of 14 "0x10" b] by simp

lemma lead4_mod: "(0xF0::nat) \<le> b \<Longrightarrow> b \<le> 0xF4 \<Longrightarrow> b mod 0x08 = b - 0xF0"
  using mod_shift [of 30 "0x08" b] by simp

lemma pack: "y < n \<Longrightarrow> (x * n + y) div n = (x::nat) \<and> (x * n + y) mod n = y"
  by simp


lemma pack3_gen:
  "y < n \<Longrightarrow> z < n \<Longrightarrow>
   ((x * n + y) * n + z) div (n * n) = (x::nat) \<and>
   ((x * n + y) * n + z) div n mod n = y \<and>
   ((x * n + y) * n + z) mod n = z"
proof -
  assume a: "y < n" "z < n"
  have d1: "((x * n + y) * n + z) div n = x * n + y" using a by simp
  have "((x * n + y) * n + z) div (n * n) = ((x * n + y) * n + z) div n div n"
    by (rule div_mult2_eq)
  then have "((x * n + y) * n + z) div (n * n) = x" using d1 a by simp
  with d1 a show ?thesis by simp
qed

lemma pack4_gen:
  "y < n \<Longrightarrow> z < n \<Longrightarrow> w < n \<Longrightarrow>
   (((x * n + y) * n + z) * n + w) div (n * n * n) = (x::nat) \<and>
   (((x * n + y) * n + z) * n + w) div (n * n) mod n = y \<and>
   (((x * n + y) * n + z) * n + w) div n mod n = z \<and>
   (((x * n + y) * n + z) * n + w) mod n = w"
proof -
  assume a: "y < n" "z < n" "w < n"
  let ?r = "((x * n + y) * n + z) * n + w"
  have d1: "?r div n = (x * n + y) * n + z" using a by simp
  have "?r div (n * n) = ?r div n div n" by (rule div_mult2_eq)
  then have d2: "?r div (n * n) = x * n + y" using d1 a by simp
  have "?r div (n * n * n) = ?r div (n * n) div n" by (rule div_mult2_eq)
  then have d3: "?r div (n * n * n) = x" using d2 a by simp
  from d1 d2 d3 a show ?thesis by simp
qed

lemma pack3:
  "y < 0x40 \<Longrightarrow> z < 0x40 \<Longrightarrow>
   ((x * 0x40 + y) * 0x40 + z) div 0x1000 = (x::nat) \<and>
   ((x * 0x40 + y) * 0x40 + z) div 0x40 mod 0x40 = y \<and>
   ((x * 0x40 + y) * 0x40 + z) mod 0x40 = z"
  using pack3_gen [of y "0x40" z x] by simp

lemma pack4:
  "y < 0x40 \<Longrightarrow> z < 0x40 \<Longrightarrow> w < 0x40 \<Longrightarrow>
   (((x * 0x40 + y) * 0x40 + z) * 0x40 + w) div 0x40000 = (x::nat) \<and>
   (((x * 0x40 + y) * 0x40 + z) * 0x40 + w) div 0x1000 mod 0x40 = y \<and>
   (((x * 0x40 + y) * 0x40 + z) * 0x40 + w) div 0x40 mod 0x40 = z \<and>
   (((x * 0x40 + y) * 0x40 + z) * 0x40 + w) mod 0x40 = w"
  using pack4_gen [of y "0x40" z w x] by simp

lemma enc2:
  fixes b0 b1 :: nat
  assumes "0xC2 \<le> b0" "b0 \<le> 0xDF" "0x80 \<le> b1" "b1 \<le> 0xBF"
  shows "EncodeRune (b0 mod 0x20 * 0x40 + b1 mod 0x40) = [char_of b0, char_of b1]"
proof -
  define x y where "x = b0 - 0xC0" and "y = b1 - 0x80"
  have b: "b0 = 0xC0 + x" "b1 = 0x80 + y" "2 \<le> x" "x < 0x20" "y < 0x40"
    using assms by (simp_all add: x_def y_def)
  have m: "b0 mod 0x20 = x" "b1 mod 0x40 = y"
    using assms by (simp_all add: lead2_mod cont_mod x_def y_def)
  have r: "0x7F < x * 0x40 + y" "x * 0x40 + y \<le> 0x7FF"
    using b by simp_all
  show ?thesis
    unfolding m using r pack [of y "0x40" x] b by (simp add: EncodeRune_def)
qed

lemma enc3:
  fixes b0 b1 b2 :: nat
  assumes "0xE0 \<le> b0" "b0 \<le> 0xEF"
    and "(if b0 = 0xE0 then 0xA0 else 0x80) \<le> b1"
    and "b1 \<le> (if b0 = 0xED then 0x9F else 0xBF)"
    and "0x80 \<le> b2" "b2 \<le> 0xBF"
  shows "EncodeRune ((b0 mod 0x10 * 0x40 + b1 mod 0x40) * 0x40 + b2 mod 0x40) =
           [char_of b0, char_of b1, char_of b2]"
proof -
  define x y z where "x = b0 - 0xE0" and "y = b1 - 0x80" and "z = b2 - 0x80"
  have b1r: "0x80 \<le> b1" "b1 \<le> 0xBF"
    using assms(3,4) by (simp_all split: if_splits)
  have b: "b0 = 0xE0 + x" "b1 = 0x80 + y" "b2 = 0x80 + z" "x < 0x10" "y < 0x40" "z < 0x40"
    using assms(1,2,5,6) b1r by (simp_all add: x_def y_def z_def)
  have m: "b0 mod 0x10 = x" "b1 mod 0x40 = y" "b2 mod 0x40 = z"
    using assms(1,2,5,6) b1r by (simp_all add: lead3_mod cont_mod x_def y_def z_def)
  have e: "x = 0 \<longrightarrow> 0x20 \<le> y" "x = 0xD \<longrightarrow> y < 0x20"
    using assms(1,2,3,4) by (auto simp add: x_def y_def split: if_splits)
  define r where "r = (x * 0x40 + y) * 0x40 + z"
  have lin: "r = 0x1000 * x + 0x40 * y + z" by (simp add: r_def)
  have r1: "0x7FF < r"
  proof (cases "x = 0")
    case True
    with e lin show ?thesis by simp
  next
    case False
    with lin show ?thesis by simp
  qed
  have r2: "r \<le> 0xFFFF" using lin b by simp
  have r3: "\<not> (0xD800 \<le> r \<and> r \<le> 0xDFFF)"
  proof -
    consider "x \<le> 0xC" | "x = 0xD" | "0xE \<le> x" by linarith
    then show ?thesis
    proof cases
      case 1
      with lin b show ?thesis by simp
    next
      case 2
      with lin b e show ?thesis by simp
    next
      case 3
      with lin show ?thesis by simp
    qed
  qed
  have p: "r div 0x1000 = x" "r div 0x40 mod 0x40 = y" "r mod 0x40 = z"
    using pack3 [of y z x] b unfolding r_def by simp_all
  have "EncodeRune r = [char_of (0xE0 + x), char_of (0x80 + y), char_of (0x80 + z)]"
    using r1 r2 r3 p by (auto simp add: EncodeRune_def)
  then show ?thesis
    unfolding m r_def [symmetric] using b by simp
qed

lemma enc4:
  fixes b0 b1 b2 b3 :: nat
  assumes "0xF0 \<le> b0" "b0 \<le> 0xF4"
    and "(if b0 = 0xF0 then 0x90 else 0x80) \<le> b1"
    and "b1 \<le> (if b0 = 0xF4 then 0x8F else 0xBF)"
    and "0x80 \<le> b2" "b2 \<le> 0xBF" and "0x80 \<le> b3" "b3 \<le> 0xBF"
  shows "EncodeRune (((b0 mod 0x08 * 0x40 + b1 mod 0x40) * 0x40 + b2 mod 0x40) * 0x40 +
                     b3 mod 0x40) =
           [char_of b0, char_of b1, char_of b2, char_of b3]"
proof -
  define x y z w where "x = b0 - 0xF0" and "y = b1 - 0x80" and "z = b2 - 0x80"
    and "w = b3 - 0x80"
  have b1r: "0x80 \<le> b1" "b1 \<le> 0xBF"
    using assms(3,4) by (simp_all split: if_splits)
  have b: "b0 = 0xF0 + x" "b1 = 0x80 + y" "b2 = 0x80 + z" "b3 = 0x80 + w"
    "x \<le> 4" "y < 0x40" "z < 0x40" "w < 0x40"
    using assms(1,2,5,6,7,8) b1r by (simp_all add: x_def y_def z_def w_def)
  have m: "b0 mod 0x08 = x" "b1 mod 0x40 = y" "b2 mod 0x40 = z" "b3 mod 0x40 = w"
    using assms(1,2,5,6,7,8) b1r
    by (simp_all add: lead4_mod cont_mod x_def y_def z_def w_def)
  have e: "x = 0 \<longrightarrow> 0x10 \<le> y" "x = 4 \<longrightarrow> y < 0x10"
    using assms(1,2,3,4) by (auto simp add: x_def y_def split: if_splits)
  define r where "r = ((x * 0x40 + y) * 0x40 + z) * 0x40 + w"
  have lin: "r = 0x40000 * x + 0x1000 * y + 0x40 * z + w" by (simp add: r_def)
  have r1: "0xFFFF < r"
  proof (cases "x = 0")
    case True
    with e lin show ?thesis by simp
  next
    case False
    with lin show ?thesis by simp
  qed
  have r2: "r \<le> 0x10FFFF"
  proof (cases "x = 4")
    case True
    with e lin b show ?thesis by simp
  next
    case False
    with b have "x \<le> 3" by simp
    with lin b show ?thesis by simp
  qed
  have p: "r div 0x40000 = x" "r div 0x1000 mod 0x40 = y" "r div 0x40 mod 0x40 = z"
    "r mod 0x40 = w"
    using pack4 [of y z w x] b unfolding r_def by simp_all
  have "EncodeRune r =
          [char_of (0xF0 + x), char_of (0x80 + y), char_of (0x80 + z), char_of (0x80 + w)]"
    using r1 r2 p by (auto simp add: EncodeRune_def)
  then show ?thesis
    unfolding m r_def [symmetric] using b by simp
qed

lemma decode_step:
  assumes v: "DecodeRuneInString (s0 # rest) \<noteq> (RuneError, 1)"
  shows "EncodeRune (fst (DecodeRuneInString (s0 # rest))) @
           drop (snd (DecodeRuneInString (s0 # rest)) - 1) rest = s0 # rest"
proof -
  consider (one) "in_range s0 0x00 0x7F"
    | (two) "\<not> in_range s0 0x00 0x7F" "in_range s0 0xC2 0xDF"
    | (three) "\<not> in_range s0 0x00 0x7F" "\<not> in_range s0 0xC2 0xDF" "in_range s0 0xE0 0xEF"
    | (four) "\<not> in_range s0 0x00 0x7F" "\<not> in_range s0 0xC2 0xDF" "\<not> in_range s0 0xE0 0xEF"
        "in_range s0 0xF0 0xF4"
    | (none) "\<not> in_range s0 0x00 0x7F" "\<not> in_range s0 0xC2 0xDF" "\<not> in_range s0 0xE0 0xEF"
        "\<not> in_range s0 0xF0 0xF4"
    by blast
  then show ?thesis
  proof cases
    case one
    then have "DecodeRuneInString (s0 # rest) = (of_char s0, 1)"
      by (simp add: DecodeRuneInString_def)
    moreover have "EncodeRune (of_char s0) = [s0]"
      using one by (simp add: EncodeRune_def in_range_def)
    ultimately show ?thesis by simp
  next
    case two
    show ?thesis
    proof (cases rest)
      case Nil
      with two v show ?thesis by (simp add: DecodeRuneInString_def)
    next
      case (Cons s1 t)
      show ?thesis
      proof (cases "in_range s1 0x80 0xBF")
        case True
        with two Cons have d: "DecodeRuneInString (s0 # rest) =
            (of_char s0 mod 0x20 * 0x40 + of_char s1 mod 0x40, 2)"
          by (simp add: DecodeRuneInString_def)
        have "EncodeRune (of_char s0 mod 0x20 * 0x40 + of_char s1 mod 0x40) =
                [char_of (of_char s0 :: nat), char_of (of_char s1 :: nat)]"
          using two True by (intro enc2) (simp_all add: in_range_def)
        with d Cons show ?thesis by simp
      next
        case False
        with two Cons v show ?thesis by (simp add: DecodeRuneInString_def)
      qed
    qed
  next
    case three
    show ?thesis
    proof (cases "\<exists>s1 s2 t. rest = s1 # s2 # t")
      case False
      then have "DecodeRuneInString (s0 # rest) = (RuneError, 1)"
        using three by (auto simp add: DecodeRuneInString_def split: list.splits)
      with v show ?thesis by simp
    next
      case True
      then obtain s1 s2 t where r: "rest = s1 # s2 # t" by blast
      show ?thesis
      proof (cases "in_range s1 (if of_char s0 = (0xE0::nat) then 0xA0 else 0x80)
                                (if of_char s0 = (0xED::nat) then 0x9F else 0xBF) \<and>
                    in_range s2 0x80 0xBF")
        case ok: True
        with three r have d: "DecodeRuneInString (s0 # rest) =
            ((of_char s0 mod 0x10 * 0x40 + of_char s1 mod 0x40) * 0x40 + of_char s2 mod 0x40, 3)"
          by (simp add: DecodeRuneInString_def)
        have "EncodeRune ((of_char s0 mod 0x10 * 0x40 + of_char s1 mod 0x40) * 0x40 +
                          of_char s2 mod 0x40) =
                [char_of (of_char s0 :: nat), char_of (of_char s1 :: nat),
                 char_of (of_char s2 :: nat)]"
          using three ok by (intro enc3) (simp_all add: in_range_def)
        with d r show ?thesis by simp
      next
        case False
        with three r have "DecodeRuneInString (s0 # rest) = (RuneError, 1)"
          by (simp add: DecodeRuneInString_def)
        with v show ?thesis by simp
      qed
    qed
  next
    case four
    show ?thesis
    proof (cases "\<exists>s1 s2 s3 t. rest = s1 # s2 # s3 # t")
      case False
      then have "DecodeRuneInString (s0 # rest) = (RuneError, 1)"
        using four by (auto simp add: DecodeRuneInString_def split: list.splits)
      with v show ?thesis by simp
    next
      case True
      then obtain s1 s2 s3 t where r: "rest = s1 # s2 # s3 # t" by blast
      show ?thesis
      proof (cases "in_range s1 (if of_char s0 = (0xF0::nat) then 0x90 else 0x80)
                                (if of_char s0 = (0xF4::nat) then 0x8F else 0xBF) \<and>
                    in_range s2 0x80 0xBF \<and> in_range s3 0x80 0xBF")
        case ok: True
        with four r have d: "DecodeRuneInString (s0 # rest) =
            (((of_char s0 mod 0x08 * 0x40 + of_char s1 mod 0x40) * 0x40 + of_char s2 mod 0x40) *
               0x40 + of_char s3 mod 0x40, 4)"
          by (simp add: DecodeRuneInString_def)
        have "EncodeRune (((of_char s0 mod 0x08 * 0x40 + of_char s1 mod 0x40) * 0x40 +
                           of_char s2 mod 0x40) * 0x40 + of_char s3 mod 0x40) =
                [char_of (of_char s0 :: nat), char_of (of_char s1 :: nat),
                 char_of (of_char s2 :: nat), char_of (of_char s3 :: nat)]"
          using four ok by (intro enc4) (simp_all add: in_range_def)
        with d r show ?thesis by simp
      next
        case False
        with four r have "DecodeRuneInString (s0 # rest) = (RuneError, 1)"
          by (simp add: DecodeRuneInString_def)
        with v show ?thesis by simp
      qed
    qed
  next
    case none
    then have "DecodeRuneInString (s0 # rest) = (RuneError, 1)"
      by (simp add: DecodeRuneInString_def)
    with v show ?thesis by simp
  qed
qed

lemma ValidString_roundtrip:
  "ValidString s \<Longrightarrow> concat (map EncodeRune (range_runes s)) = s"
proof (induction s rule: range_runes.induct)
  case 1
  then show ?case by simp
next
  case (2 s0 rest)
  then show ?case using decode_step [of s0 rest] by simp
qed

section \<open>The alternate file name\<close>

lemma genCaseTestFilename_map_unchanged:
  "\<forall>r\<in>set s. \<not> case_reversible tbl r \<Longrightarrow> genCaseTestFilename_map tbl flip s = s"
  by (induction s arbitrary: flip) (auto simp: case_reversible_def Let_def)

lemma genCaseTestFilename_unchanged:
  assumes "ValidString s" and "\<forall>r\<in>set (range_runes s). \<not> case_reversible tbl r"
  shows "genCaseTestFilename tbl s = s"
  unfolding genCaseTestFilename_def
  using assms by (simp add: genCaseTestFilename_map_unchanged ValidString_roundtrip)

lemmas path_defs =
  filepath_Join_def filepath_Dir_def filepath_Base_def filepath_Clean_def
  Separator_def genCaseTestFilename_def DecodeRuneInString_def in_range_def EncodeRune_def
  char_of_eq_iff

lemma alt_123s:
  "filepath_Join [filepath_Dir ''123/'',
      genCaseTestFilename ascii_tables (filepath_Base ''123/'')] = ''123/123''"
  by (simp add: path_defs ascii_tables_def)
lemma alt_123:
  "filepath_Join [filepath_Dir ''123'',
      genCaseTestFilename ascii_tables (filepath_Base ''123'')] = ''123''"
  by (simp add: path_defs ascii_tables_def)

lemma alt_invalid:
  "filepath_Join [filepath_Dir (CHR 0xFF # ''123''),
      genCaseTestFilename ascii_tables (filepath_Base (CHR 0xFF # ''123''))] =
     [CHR 0xEF, CHR 0xBF, CHR 0xBD] @ ''123''"
  by (simp add: path_defs ascii_tables_def RuneError_def)

section \<open>Claims about the probe\<close>




text \<open>
  Claim C9, as far as the code supports it: when the base name of \<open>dir\<close> is valid UTF-8
  and none of its runes is case-reversible, the alternate file name is the base name;
  and then, when the stat of \<open>dir\<close> succeeds and the path rebuilt from the directory and
  the base name of \<open>dir\<close> stats as \<open>dir\<close> does, the probe returns \<open>(false, nil)\<close>.
\<close>

theorem no_reversible_rune_reports_insensitive:
  assumes "ValidString (filepath_Base dir)"
    and "\<forall>r\<in>set (range_runes (filepath_Base dir)). \<not> case_reversible tbl r"
  shows "genCaseTestFilename tbl (filepath_Base dir) = filepath_Base dir
       \<and> (stat dir = Inr dInfo \<and>
          stat (filepath_Join [filepath_Dir dir, filepath_Base dir]) = stat dir \<longrightarrow>
            IsCaseSensitiveFilesystem tbl stat dir = (False, None))"
proof -
  have g: "genCaseTestFilename tbl (filepath_Base dir) = filepath_Base dir"
    using assms by (rule genCaseTestFilename_unchanged)
  show ?thesis
    by (simp add: g IsCaseSensitiveFilesystem_def Let_def os_SameFile_def)
qed

theorem no_reversible_rune_reports_insensitive_witness:
  "ValidString (filepath_Base ''123'')
   \<and> list_all (\<lambda>r. \<not> case_reversible ascii_tables r) (range_runes (filepath_Base ''123''))
   \<and> genCaseTestFilename ascii_tables (filepath_Base ''123'') = ''123''
   \<and> example_stat ''123'' = Inr \<lparr>dev = 1, ino = 7\<rparr>
   \<and> filepath_Join [filepath_Dir ''123'', filepath_Base ''123''] = ''123''
   \<and> IsCaseSensitiveFilesystem ascii_tables example_stat ''123'' = (False, None)"
proof -
  have b: "filepath_Base ''123'' = ''123''"
    by (simp add: path_defs)
  have r: "range_runes ''123'' = [0x31, 0x32, 0x33]"
    by (simp add: DecodeRuneInString_def in_range_def)
  have v: "ValidString (filepath_Base ''123'')"
    unfolding b by (simp add: DecodeRuneInString_def in_range_def RuneError_def)
  have h: "\<forall>r\<in>set (range_runes (filepath_Base ''123'')). \<not> case_reversible ascii_tables r"
    unfolding b r by (simp add: case_reversible_def ascii_tables_def)
  have j: "filepath_Join [filepath_Dir ''123'', filepath_Base ''123''] = ''123''"
    by (simp add: path_defs)
  have s: "example_stat ''123'' = Inr \<lparr>dev = 1, ino = 7\<rparr>"
    by (simp add: example_stat_def)
  from no_reversible_rune_reports_insensitive [OF v h, of example_stat "\<lparr>dev = 1, ino = 7\<rparr>"]
  have "genCaseTestFilename ascii_tables (filepath_Base ''123'') = ''123''"
    and "IsCaseSensitiveFilesystem ascii_tables example_stat ''123'' = (False, None)"
    using s j b by simp_all
  then show ?thesis using v h s j by (simp add: list_all_iff)
qed

text \<open>
  Claim C9 as the specification words it: for \<open>123/\<close>, a directory given with a trailing
  separator, \<open>Base\<close> is \<open>123\<close> and \<open>Dir\<close> is \<open>123\<close>, so the alternate path is \<open>123/123\<close>;
  the base name is valid UTF-8, none of its runes is case-reversible and the stat of
  \<open>dir\<close> succeeds, yet the probe returns \<open>(true, nil)\<close>.
\<close>

theorem trailing_separator_counterexample:
  "ValidString (filepath_Base ''123/'')
   \<and> list_all (\<lambda>r. \<not> case_reversible ascii_tables r) (range_runes (filepath_Base ''123/''))
   \<and> genCaseTestFilename ascii_tables (filepath_Base ''123/'') = filepath_Base ''123/''
   \<and> example_stat ''123/'' = Inr \<lparr>dev = 1, ino = 7\<rparr>
   \<and> IsCaseSensitiveFilesystem ascii_tables example_stat ''123/'' = (True, None)"
proof -
  have b: "filepath_Base ''123/'' = ''123''"
    by (simp add: path_defs)
  have r: "range_runes ''123'' = [0x31, 0x32, 0x33]"
    by (simp add: DecodeRuneInString_def in_range_def)
  have v: "ValidString ''123''"
    by (simp add: DecodeRuneInString_def in_range_def RuneError_def)
  have g: "genCaseTestFilename ascii_tables ''123'' = ''123''"
    by (simp add: path_defs ascii_tables_def)
  have l: "list_all (\<lambda>r. \<not> case_reversible ascii_tables r) (range_runes ''123'')"
    unfolding r by (simp add: case_reversible_def ascii_tables_def)
  have s: "example_stat ''123/'' = Inr \<lparr>dev = 1, ino = 7\<rparr>"
    "example_stat ''123/123'' = Inl ErrNotExist"
    by (simp_all add: example_stat_def)
  have "IsCaseSensitiveFilesystem ascii_tables example_stat ''123/'' = (True, None)"
    by (simp add: IsCaseSensitiveFilesystem_def alt_123s s os_IsNotExist_def)
  then show ?thesis using b v g l s by simp
qed

text \<open>
  The condition on the encoding is needed: in a name that starts with the byte 0xFF no
  rune is case-reversible, but \<open>strings.Map\<close> writes the byte as the three bytes of
  U+FFFD, the alternate path is another path, and the probe returns \<open>(true, nil)\<close>.
\<close>

lemma invalid_byte_example:
  "\<not> ValidString (filepath_Base (CHR 0xFF # ''123''))
   \<and> list_all (\<lambda>r. \<not> case_reversible ascii_tables r)
        (range_runes (filepath_Base (CHR 0xFF # ''123'')))
   \<and> genCaseTestFilename ascii_tables (filepath_Base (CHR 0xFF # ''123'')) =
        [CHR 0xEF, CHR 0xBF, CHR 0xBD] @ ''123''
   \<and> example_stat (CHR 0xFF # ''123'') = Inr \<lparr>dev = 1, ino = 13\<rparr>
   \<and> IsCaseSensitiveFilesystem ascii_tables example_stat (CHR 0xFF # ''123'') = (True, None)"
proof -
  have b: "filepath_Base (CHR 0xFF # ''123'') = CHR 0xFF # ''123''"
    by (simp add: path_defs)
  have r: "range_runes (CHR 0xFF # ''123'') = [0xFFFD, 0x31, 0x32, 0x33]"
    by (simp add: DecodeRuneInString_def in_range_def RuneError_def)
  have v: "\<not> ValidString (CHR 0xFF # ''123'')"
    by (simp add: DecodeRuneInString_def in_range_def RuneError_def)
  have g: "genCaseTestFilename ascii_tables (CHR 0xFF # ''123'') =
             [CHR 0xEF, CHR 0xBF, CHR 0xBD] @ ''123''"
    by (simp add: path_defs ascii_tables_def RuneError_def)
  have l: "list_all (\<lambda>r. \<not> case_reversible ascii_tables r) (range_runes (CHR 0xFF # ''123''))"
    unfolding r by (simp add: case_reversible_def ascii_tables_def)
  have s: "example_stat (CHR 0xFF # ''123'') = Inr \<lparr>dev = 1, ino = 13\<rparr>"
    "example_stat [CHR 0xEF, CHR 0xBF, CHR 0xBD, CHR ''1'', CHR ''2'', CHR ''3''] = Inl ErrNotExist"
    by (simp_all add: example_stat_def)
  have "IsCaseSensitiveFilesystem ascii_tables example_stat (CHR 0xFF # ''123'') = (True, None)"
    by (simp add: IsCaseSensitiveFilesystem_def alt_invalid s os_IsNotExist_def)
  then show ?thesis using b v g l s by simp
qed

section \<open>The delimiter in effect\<close>

lemma declared_delimiter_command [simp]:
  "declared_delimiter (delimiter_command d db path) = Some d"
  by (simp add: declared_delimiter_def delimiter_command_def)

lemma declared_delimiter_other [simp]:
  "Type s \<noteq> StatementTypeCommand \<Longrightarrow> declared_delimiter s = None"
  by (simp add: declared_delimiter_def)








section \<open>The memory after \<open>AddStatement\<close>\<close>






section \<open>The calls keep the delimiters consistent\<close>

lemma Type_delimiter_command [simp]:
  "Type (delimiter_command d db path) = StatementTypeCommand"
  by (simp add: delimiter_command_def)











section \<open>An example of a reached state\<close>



section \<open>Claims about the delimiters\<close>




text \<open>
  The three conditions on the calls are needed. Removing the command \<open>DELIMITER //\<close>,
  editing its text, or adding a statement a second time after its \<open>Compound\<close> flag was
  cleared each leaves the trigger, which is not a command, with a delimiter that is not
  the one in effect at its position.
\<close>

lemma removing_a_command_example:
  "\<exists>st. RemoveStatement example_tengo
          (AddStatement example_tengo (example_memory, example_file []) 1) 3 = Returns st
     \<and> Statements (snd st) = [1, 4]
     \<and> Type (heap (fst st) 1) = StatementTypeDDL
     \<and> Delimiter (heap (fst st) 1) = ''//''
     \<and> delimiter_in_effect (heap (fst st)) [] = '';''"
  by (simp add: RemoveStatement_def statementIndex_def AddStatement_def Let_def memory_defs
      prune_loop_Nil example_defs delimiter_in_effect_def)

lemma adding_twice_example:
  "\<exists>st. EditStatementText example_tengo
          (AddStatement example_tengo (example_memory, example_file []) 1) 1
          ''CREATE TABLE u (a int)'' False = Returns st
     \<and> Statements (snd (AddStatement example_tengo st 1)) = [3, 1, 5, 1]
     \<and> Type (heap (fst (AddStatement example_tengo st 1)) 1) = StatementTypeDDL
     \<and> Delimiter (heap (fst (AddStatement example_tengo st 1)) 1) = '';''
     \<and> delimiter_in_effect (heap (fst (AddStatement example_tengo st 1))) [3] = ''//''"
  by (simp add: EditStatementText_def statementIndex_def AddStatement_def Let_def memory_defs
      prune_loop_Nil prune_loop_rev example_defs delimiter_in_effect_def declared_delimiter_def)

lemma editing_a_command_example:
  "\<exists>st. EditStatementText example_tengo
          (AddStatement example_tengo (example_memory, example_file []) 1) 3
          ''DELIMITER $$'' False = Returns st
     \<and> Statements (snd st) = [3, 1, 4]
     \<and> Type (heap (fst st) 1) = StatementTypeDDL
     \<and> Delimiter (heap (fst st) 1) = ''//''
     \<and> delimiter_in_effect (heap (fst st)) [3] = ''$$/''"
  by (simp add: EditStatementText_def statementIndex_def AddStatement_def Let_def memory_defs
      prune_loop_Nil example_defs delimiter_in_effect_def declared_delimiter_def)

end
